theory Spec2Isabelle
  imports Complex_Main
begin

section \<open>Python values used by the invoice generator\<close>

text \<open>
  The generator (\<^verbatim>\<open>src/generador_facturas.py\<close>) works on the JSON order record that
  the order-source API returns, on Python floats, on \<^verbatim>\<open>datetime\<close> values and on
  strings. Strings are byte lists holding the UTF-8 encoding of the Python text; the
  operations the generator applies to them (concatenation, emptiness, replacing the
  ASCII letter Z) commute with that encoding.
\<close>

subsection \<open>Exceptions\<close>

datatype exn_kind =
  KeyError | TypeError | ValueError | AttributeError | OverflowError
  | RequestException | OSError

text \<open>An exception carries its class and the text that \<^verbatim>\<open>str(e)\<close> yields.\<close>

datatype exn = Exn exn_kind string

fun str_exn :: "exn \<Rightarrow> string" where
  "str_exn (Exn k msg) = msg"

fun bindE :: "exn + 'a \<Rightarrow> ('a \<Rightarrow> exn + 'b) \<Rightarrow> exn + 'b" where
  "bindE (Inl e) f = Inl e"
| "bindE (Inr x) f = f x"

subsection \<open>Decimal text\<close>

fun str_nat :: "nat \<Rightarrow> string" where
  "str_nat n =
     (if n < 10 then [''0123456789'' ! n]
      else str_nat (n div 10) @ [''0123456789'' ! (n mod 10)])"

declare str_nat.simps [simp del]

definition str_int :: "int \<Rightarrow> string" where
  "str_int i = (if i < 0 then ''-'' @ str_nat (nat (- i)) else str_nat (nat i))"

definition zfill :: "nat \<Rightarrow> string \<Rightarrow> string" where
  "zfill w s = replicate (w - length s) (CHR ''0'') @ s"

subsection \<open>Floats\<close>

text \<open>
  A Python float is an IEEE double: a finite value (a rational number), negative zero, an
  infinity or a NaN. Every finite double is a rational, so a statement about all
  \<open>pyfloat\<close> values covers all doubles. Operations that round (parsing a decimal string,
  converting a large integer, multiplying) belong to the runtime and are parameters of
  the model, see \<open>py_runtime\<close> below.
\<close>

datatype pyfloat = Finite rat | NegZero | PosInf | NegInf | NaN

text \<open>The comparison \<^verbatim>\<open>x > 0\<close>.\<close>

fun float_gt_zero :: "pyfloat \<Rightarrow> bool" where
  "float_gt_zero (Finite q) = (0 < q)"
| "float_gt_zero PosInf = True"
| "float_gt_zero NegZero = False"
| "float_gt_zero NegInf = False"
| "float_gt_zero NaN = False"

text \<open>Rounding a non-negative rational to the nearest integer, ties to even, as the
  float formatter does on the exact value of the double.\<close>

definition round_half_even :: "rat \<Rightarrow> nat" where
  "round_half_even q =
     (let f = \<lfloor>q\<rfloor>; r = q - of_int f
      in nat (if r < 1 / 2 then f else if 1 / 2 < r then f + 1
              else if even f then f else f + 1))"

text \<open>Thousands grouping of a digit string: a comma before every group of three
  digits counted from the right.\<close>

fun group_rev :: "string \<Rightarrow> string" where
  "group_rev (a # b # c # d # xs) = a # b # c # CHR '','' # group_rev (d # xs)"
| "group_rev xs = xs"

definition group_thousands :: "string \<Rightarrow> string" where
  "group_thousands s = rev (group_rev (rev s))"

fun float_sign :: "pyfloat \<Rightarrow> string" where
  "float_sign (Finite q) = (if q < 0 then ''-'' else [])"
| "float_sign NegZero = ''-''"
| "float_sign NegInf = ''-''"
| "float_sign PosInf = []"
| "float_sign NaN = []"

text \<open>\<^verbatim>\<open>format(x, ',.0f')\<close>: no decimals, thousands grouped.\<close>

fun format_grouped0 :: "pyfloat \<Rightarrow> string" where
  "format_grouped0 (Finite q) =
     float_sign (Finite q) @ group_thousands (str_nat (round_half_even \<bar>q\<bar>))"
| "format_grouped0 NegZero = ''-0''"
| "format_grouped0 PosInf = ''inf''"
| "format_grouped0 NegInf = ''-inf''"
| "format_grouped0 NaN = ''nan''"

text \<open>\<^verbatim>\<open>format(x, '.2f')\<close>: two decimals, no grouping.\<close>

fun format_fixed2 :: "pyfloat \<Rightarrow> string" where
  "format_fixed2 (Finite q) =
     (let n = round_half_even (\<bar>q\<bar> * 100)
      in float_sign (Finite q) @ str_nat (n div 100) @ ''.'' @ zfill 2 (str_nat (n mod 100)))"
| "format_fixed2 NegZero = ''-0.00''"
| "format_fixed2 PosInf = ''inf''"
| "format_fixed2 NegInf = ''-inf''"
| "format_fixed2 NaN = ''nan''"

text \<open>
  \<^verbatim>\<open>float.__format__\<close> raises \<^verbatim>\<open>ValueError\<close> on a format specification it does not
  know; the generator uses the two specifications below.
\<close>

definition py_format_float :: "string \<Rightarrow> pyfloat \<Rightarrow> exn + string" where
  "py_format_float spec x =
     (if spec = '',.0f'' then Inr (format_grouped0 x)
      else if spec = ''.2f'' then Inr (format_fixed2 x)
      else Inl (Exn ValueError ''Invalid format specifier''))"

subsection \<open>Dates\<close>

record datetime =
  year :: nat
  month :: nat
  day :: nat
  hour :: nat
  minute :: nat
  second :: nat
  microsecond :: nat
  utcoffset :: "int option"

text \<open>The proleptic Gregorian ordinal arithmetic of Python's \<^verbatim>\<open>datetime\<close> module.\<close>

definition is_leap :: "nat \<Rightarrow> bool" where
  "is_leap y = (y mod 4 = 0 \<and> (y mod 100 \<noteq> 0 \<or> y mod 400 = 0))"

definition days_before_year :: "nat \<Rightarrow> nat" where
  "days_before_year y = (let p = y - 1 in p * 365 + p div 4 - p div 100 + p div 400)"

definition DAYS_IN_MONTH :: "nat list" where
  "DAYS_IN_MONTH = [0, 31, 28, 31, 30, 31, 30, 31, 31, 30, 31, 30, 31]"

definition DAYS_BEFORE_MONTH :: "nat list" where
  "DAYS_BEFORE_MONTH = [0, 0, 31, 59, 90, 120, 151, 181, 212, 243, 273, 304, 334]"

definition days_in_month :: "nat \<Rightarrow> nat \<Rightarrow> nat" where
  "days_in_month y m = (if m = 2 \<and> is_leap y then 29 else DAYS_IN_MONTH ! m)"

definition days_before_month :: "nat \<Rightarrow> nat \<Rightarrow> nat" where
  "days_before_month y m =
     DAYS_BEFORE_MONTH ! m + (if 2 < m \<and> is_leap y then 1 else 0)"

definition ymd2ord :: "nat \<Rightarrow> nat \<Rightarrow> nat \<Rightarrow> nat" where
  "ymd2ord y m d = days_before_year y + days_before_month y m + d"

definition ord2ymd :: "nat \<Rightarrow> nat \<times> nat \<times> nat" where
  "ord2ymd ordinal =
     (let n = ordinal - 1;
          n400 = n div 146097; n = n mod 146097;
          n100 = n div 36524; n = n mod 36524;
          n4 = n div 1461; n = n mod 1461;
          n1 = n div 365; n = n mod 365;
          y = n400 * 400 + 1 + n100 * 100 + n4 * 4 + n1
      in if n1 = 4 \<or> n100 = 4 then (y - 1, 12, 31)
         else
           (let leapyear = (n1 = 3 \<and> (n4 \<noteq> 24 \<or> n100 = 3));
                m = (n + 50) div 32;
                preceding = DAYS_BEFORE_MONTH ! m + (if 2 < m \<and> leapyear then 1 else 0)
            in if n < preceding
               then (let m' = m - 1;
                         preceding' = preceding -
                           (DAYS_IN_MONTH ! m' + (if m' = 2 \<and> leapyear then 1 else 0))
                     in (y, m', n - preceding' + 1))
               else (y, m, n - preceding + 1)))"

definition MAXORDINAL :: nat where
  "MAXORDINAL = 3652059"

text \<open>
  \<^verbatim>\<open>dt + timedelta(days=k)\<close>: the time of day and the zone stay, the date moves by
  \<open>k\<close> days; past 9999-12-31 Python raises \<^verbatim>\<open>OverflowError\<close>.
\<close>

definition add_days :: "datetime \<Rightarrow> nat \<Rightarrow> exn + datetime" where
  "add_days dt k =
     (let n = ymd2ord (year dt) (month dt) (day dt) + k
      in if n \<le> MAXORDINAL
         then (case ord2ymd n of
                 (y, m, d) \<Rightarrow> Inr (dt\<lparr>year := y, month := m, day := d\<rparr>))
         else Inl (Exn OverflowError ''date value out of range''))"

text \<open>\<^verbatim>\<open>dt.strftime('%d/%m/%Y')\<close>: day and month on two digits, the year on four, as
  the Python documentation gives \<^verbatim>\<open>%Y\<close> (0001 to 9999). C libraries that print a
  year below 1000 without its leading zeros are not modelled.\<close>

definition strftime_dmY :: "datetime \<Rightarrow> string" where
  "strftime_dmY dt =
     zfill 2 (str_nat (day dt)) @ ''/'' @ zfill 2 (str_nat (month dt)) @ ''/''
       @ zfill 4 (str_nat (year dt))"

text \<open>\<^verbatim>\<open>s.replace('Z', '+00:00')\<close>: every occurrence of the letter is replaced.\<close>

definition replace_Z :: "string \<Rightarrow> string" where
  "replace_Z s = concat (map (\<lambda>c. if c = CHR ''Z'' then ''+00:00'' else [c]) s)"

subsection \<open>JSON values\<close>

text \<open>
  \<^verbatim>\<open>response.json()\<close> yields Python values built from \<^verbatim>\<open>None\<close>, booleans,
  integers, floats, strings, lists and dictionaries. A dictionary is an association
  list with distinct keys.
\<close>

datatype json =
  JNull | JBool bool | JInt int | JFloat pyfloat | JStr string
  | JArr "json list" | JObj "(string \<times> json) list"

text \<open>Truth value of a Python object, as \<^verbatim>\<open>if x:\<close> and \<^verbatim>\<open>all(...)\<close> test it.\<close>

fun py_truthy :: "json \<Rightarrow> bool" where
  "py_truthy JNull = False"
| "py_truthy (JBool b) = b"
| "py_truthy (JInt i) = (i \<noteq> 0)"
| "py_truthy (JFloat x) = (x \<noteq> Finite 0 \<and> x \<noteq> NegZero)"
| "py_truthy (JStr s) = (s \<noteq> [])"
| "py_truthy (JArr xs) = (xs \<noteq> [])"
| "py_truthy (JObj kvs) = (kvs \<noteq> [])"

text \<open>\<^verbatim>\<open>d[key]\<close> with a string key.\<close>

fun py_getitem :: "json \<Rightarrow> string \<Rightarrow> exn + json" where
  "py_getitem (JObj kvs) k =
     (case map_of kvs k of
        Some v \<Rightarrow> Inr v
      | None \<Rightarrow> Inl (Exn KeyError ([CHR 0x27] @ k @ [CHR 0x27])))"
| "py_getitem (JArr xs) k =
     Inl (Exn TypeError ''list indices must be integers or slices, not str'')"
| "py_getitem (JStr s) k = Inl (Exn TypeError ''string indices must be integers'')"
| "py_getitem v k = Inl (Exn TypeError ''object is not subscriptable'')"

text \<open>\<^verbatim>\<open>d.get(key, default)\<close>: only dictionaries have the method.\<close>

fun py_get :: "json \<Rightarrow> string \<Rightarrow> json \<Rightarrow> exn + json" where
  "py_get (JObj kvs) k dflt =
     (case map_of kvs k of Some v \<Rightarrow> Inr v | None \<Rightarrow> Inr dflt)"
| "py_get v k dflt = Inl (Exn AttributeError ''object has no attribute get'')"

text \<open>The code points of a string: a UTF-8 lead byte with its continuation bytes.\<close>

definition is_continuation :: "char \<Rightarrow> bool" where
  "is_continuation c = ((of_char c :: nat) div 64 = 2)"

function utf8_chars :: "string \<Rightarrow> string list" where
  "utf8_chars [] = []"
| "utf8_chars (c # cs) =
     (c # takeWhile is_continuation cs) # utf8_chars (dropWhile is_continuation cs)"
  by pat_completeness auto
termination
  by (relation "measure length") (simp_all add: le_imp_less_Suc length_dropWhile_le)

text \<open>Iterating a value, as a \<^verbatim>\<open>for\<close> loop does: a list yields its elements, a
  dictionary its keys, a string its characters.\<close>

fun py_iter :: "json \<Rightarrow> exn + json list" where
  "py_iter (JArr xs) = Inr xs"
| "py_iter (JObj kvs) = Inr (map (\<lambda>kv. JStr (fst kv)) kvs)"
| "py_iter (JStr s) = Inr (map JStr (utf8_chars s))"
| "py_iter v = Inl (Exn TypeError ''object is not iterable'')"

text \<open>\<^verbatim>\<open>v += s\<close> for a string \<open>s\<close>: strings concatenate, a list is extended by the
  characters of \<open>s\<close>, every other JSON value raises.\<close>

fun py_iadd_str :: "json \<Rightarrow> string \<Rightarrow> exn + json" where
  "py_iadd_str (JStr a) s = Inr (JStr (a @ s))"
| "py_iadd_str (JArr xs) s = Inr (JArr (xs @ map JStr (utf8_chars s)))"
| "py_iadd_str v s = Inl (Exn TypeError ''unsupported operand type(s) for +='')"

subsection \<open>The Python runtime\<close>

text \<open>
  Library functions whose result depends on the interpreter version or on IEEE rounding
  are parameters of the model:
  \<^item> \<open>fromisoformat\<close> is \<^verbatim>\<open>datetime.fromisoformat\<close>, \<open>None\<close> when it raises;
  \<^item> \<open>float_of_str\<close> is \<^verbatim>\<open>float(s)\<close> on a string, \<open>None\<close> when it raises;
  \<^item> \<open>float_of_bigint\<close> is \<^verbatim>\<open>float(n)\<close> on an integer beyond \<open>2^53\<close>, \<open>None\<close> on
    overflow;
  \<^item> \<open>float_mul\<close> is the product of two floats;
  \<^item> \<open>repr_value\<close> is \<^verbatim>\<open>str(v)\<close> on floats, lists and dictionaries;
  \<^item> \<open>docx_text_of\<close> is what python-docx writes when the text it is given is not a
    string (it iterates the value), \<open>None\<close> when it raises, as it does on
    \<^verbatim>\<open>None\<close> and on numbers.
\<close>

record py_runtime =
  fromisoformat :: "string \<Rightarrow> datetime option"
  float_of_str :: "string \<Rightarrow> pyfloat option"
  float_of_bigint :: "int \<Rightarrow> pyfloat option"
  float_mul :: "pyfloat \<Rightarrow> pyfloat \<Rightarrow> pyfloat"
  repr_value :: "json \<Rightarrow> string"
  docx_text_of :: "json \<Rightarrow> string option"

text \<open>\<^verbatim>\<open>str(v)\<close>, which is also what an f-string field without a format does.\<close>

fun py_str :: "py_runtime \<Rightarrow> json \<Rightarrow> string" where
  "py_str rt (JStr s) = s"
| "py_str rt (JInt i) = str_int i"
| "py_str rt JNull = ''None''"
| "py_str rt (JBool b) = (if b then ''True'' else ''False'')"
| "py_str rt v = repr_value rt v"

text \<open>\<^verbatim>\<open>float(n)\<close> on an integer: exact up to \<open>2^53\<close>.\<close>

definition float_of_int :: "py_runtime \<Rightarrow> int \<Rightarrow> exn + pyfloat" where
  "float_of_int rt n =
     (if \<bar>n\<bar> \<le> 2 ^ 53 then Inr (Finite (of_int n))
      else (case float_of_bigint rt n of
              Some x \<Rightarrow> Inr x
            | None \<Rightarrow> Inl (Exn OverflowError ''int too large to convert to float'')))"

text \<open>\<^verbatim>\<open>float(v)\<close>.\<close>

fun py_float :: "py_runtime \<Rightarrow> json \<Rightarrow> exn + pyfloat" where
  "py_float rt (JFloat x) = Inr x"
| "py_float rt (JInt n) = float_of_int rt n"
| "py_float rt (JBool b) = Inr (Finite (if b then 1 else 0))"
| "py_float rt (JStr s) =
     (case float_of_str rt s of
        Some x \<Rightarrow> Inr x
      | None \<Rightarrow> Inl (Exn ValueError (''could not convert string to float: '' @ s)))"
| "py_float rt v =
     Inl (Exn TypeError ''float() argument must be a string or a real number'')"

text \<open>\<^verbatim>\<open>x * v\<close> for a float \<open>x\<close>.\<close>

fun py_float_times :: "py_runtime \<Rightarrow> pyfloat \<Rightarrow> json \<Rightarrow> exn + pyfloat" where
  "py_float_times rt x (JFloat y) = Inr (float_mul rt x y)"
| "py_float_times rt x (JInt n) =
     bindE (float_of_int rt n) (\<lambda>y. Inr (float_mul rt x y))"
| "py_float_times rt x (JBool b) = Inr (float_mul rt x (Finite (if b then 1 else 0)))"
| "py_float_times rt x v =
     Inl (Exn TypeError ''unsupported operand type(s) for *'')"

section \<open>Money/Date Formatter\<close>

text \<open>
  \<^verbatim>\<open>format_currency\<close>: the grouped form with the suffix; if formatting raises, the
  handler formats with two decimals, and what that raises leaves the function. The
  argument is a float, as the annotation says and as every call passes. The locale that
  \<^verbatim>\<open>__init__\<close> tries to set plays no part: the \<^verbatim>\<open>,\<close> of a format specification
  does not depend on it.
\<close>

definition format_currency :: "pyfloat \<Rightarrow> exn + string" where
  "format_currency amount =
     (case py_format_float '',.0f'' amount of
        Inr s \<Rightarrow> Inr (''$'' @ s @ '' COP'')
      | Inl e \<Rightarrow>
          (case py_format_float ''.2f'' amount of
             Inr s \<Rightarrow> Inr (''$'' @ s)
           | Inl e' \<Rightarrow> Inl e'))"

text \<open>
  \<^verbatim>\<open>format_date\<close>: everything happens inside \<^verbatim>\<open>try\<close> with a bare \<^verbatim>\<open>except\<close> that
  returns the argument. A value that is not a string has no \<^verbatim>\<open>replace\<close> method, so
  it comes back as it is.
\<close>

fun format_date :: "py_runtime \<Rightarrow> json \<Rightarrow> json" where
  "format_date rt (JStr date_string) =
     (case fromisoformat rt (replace_Z date_string) of
        Some date_obj \<Rightarrow> JStr (strftime_dmY date_obj)
      | None \<Rightarrow> JStr date_string)"
| "format_date rt v = v"

section \<open>A reference runtime for concrete evaluation\<close>

text \<open>
  The examples below run the model on concrete orders. Their runtime parses the
  timestamp form \<^verbatim>\<open>YYYY-MM-DD\<close>, optionally followed by \<^verbatim>\<open>THH:MM:SS\<close> and an
  offset \<^verbatim>\<open>+HH:MM\<close>, which every version of \<^verbatim>\<open>datetime.fromisoformat\<close> accepts, and
  decimal numerals of at most fifteen digits with an all-zero fraction, whose value
  \<^verbatim>\<open>float\<close> represents exactly.
\<close>

definition digit_val :: "char \<Rightarrow> nat option" where
  "digit_val c =
     map_of [(CHR ''0'', 0), (CHR ''1'', 1), (CHR ''2'', 2), (CHR ''3'', 3), (CHR ''4'', 4),
             (CHR ''5'', 5), (CHR ''6'', 6), (CHR ''7'', 7), (CHR ''8'', 8), (CHR ''9'', 9)] c"

fun num_of_digits :: "nat \<Rightarrow> string \<Rightarrow> nat option" where
  "num_of_digits acc [] = Some acc"
| "num_of_digits acc (c # cs) =
     (case digit_val c of None \<Rightarrow> None | Some v \<Rightarrow> num_of_digits (acc * 10 + v) cs)"

definition ref_parse_time :: "string \<Rightarrow> (nat \<times> nat \<times> nat \<times> int option) option" where
  "ref_parse_time t =
     (if (length t = 8 \<or> length t = 14) \<and> t ! 2 = CHR '':'' \<and> t ! 5 = CHR '':''
      then (case (num_of_digits 0 (take 2 t), num_of_digits 0 (take 2 (drop 3 t)),
                  num_of_digits 0 (take 2 (drop 6 t))) of
              (Some h, Some mi, Some s) \<Rightarrow>
                if h < 24 \<and> mi < 60 \<and> s < 60
                then (if length t = 8 then Some (h, mi, s, None)
                      else if (t ! 8 = CHR ''+'' \<or> t ! 8 = CHR ''-'') \<and> t ! 11 = CHR '':''
                      then (case (num_of_digits 0 (take 2 (drop 9 t)),
                                  num_of_digits 0 (drop 12 t)) of
                              (Some oh, Some om) \<Rightarrow>
                                if oh < 24 \<and> om < 60
                                then Some (h, mi, s,
                                  Some ((if t ! 8 = CHR ''-'' then - 1 else 1)
                                        * (int oh * 3600 + int om * 60) * 1000000))
                                else None
                            | _ \<Rightarrow> None)
                      else None)
                else None
            | _ \<Rightarrow> None)
      else None)"

definition ref_fromisoformat :: "string \<Rightarrow> datetime option" where
  "ref_fromisoformat s =
     (if 10 \<le> length s \<and> s ! 4 = CHR ''-'' \<and> s ! 7 = CHR ''-''
      then (case (num_of_digits 0 (take 4 s), num_of_digits 0 (take 2 (drop 5 s)),
                  num_of_digits 0 (take 2 (drop 8 s))) of
              (Some y, Some m, Some d) \<Rightarrow>
                if 1 \<le> y \<and> 1 \<le> m \<and> m \<le> 12 \<and> 1 \<le> d \<and> d \<le> days_in_month y m
                then (if length s = 10
                      then Some \<lparr>year = y, month = m, day = d, hour = 0, minute = 0,
                                 second = 0, microsecond = 0, utcoffset = None\<rparr>
                      else if s ! 10 = CHR ''T''
                      then (case ref_parse_time (drop 11 s) of
                              Some (h, mi, sec, off) \<Rightarrow>
                                Some \<lparr>year = y, month = m, day = d, hour = h, minute = mi,
                                      second = sec, microsecond = 0, utcoffset = off\<rparr>
                            | None \<Rightarrow> None)
                      else None)
                else None
            | _ \<Rightarrow> None)
      else None)"

definition ref_float_of_str :: "string \<Rightarrow> pyfloat option" where
  "ref_float_of_str s =
     (let ip = takeWhile (\<lambda>c. c \<noteq> CHR ''.'') s;
          fp = drop (length ip + 1) s
      in if ip \<noteq> [] \<and> length ip \<le> 15 \<and> (\<forall>c \<in> set fp. c = CHR ''0'')
            \<and> (length ip < length s \<longrightarrow> fp \<noteq> [])
         then (case num_of_digits 0 ip of
                 Some n \<Rightarrow> Some (Finite (of_nat n))
               | None \<Rightarrow> None)
         else None)"

text \<open>The product is exact when both factors are finite: IEEE multiplication agrees
  whenever the exact product is a double, as in the examples.\<close>

fun ref_float_mul :: "pyfloat \<Rightarrow> pyfloat \<Rightarrow> pyfloat" where
  "ref_float_mul (Finite a) (Finite b) = Finite (a * b)"
| "ref_float_mul x y = NaN"

definition ref_runtime :: py_runtime where
  "ref_runtime =
     \<lparr>fromisoformat = ref_fromisoformat, float_of_str = ref_float_of_str,
      float_of_bigint = (\<lambda>n. None), float_mul = ref_float_mul,
      repr_value = (\<lambda>v. ''<repr>''), docx_text_of = (\<lambda>v. None)\<rparr>"

section \<open>The document built with python-docx\<close>

text \<open>
  A document is a list of sections (page margins) and a body of paragraphs and tables.
  A paragraph is a list of runs with an optional alignment; a run is a text with its
  bold flag and font size; a table cell is a list of paragraphs. Lengths are in EMU,
  the integer unit of python-docx.
\<close>

definition Inches :: "rat \<Rightarrow> int" where
  "Inches x = \<lfloor>x * 914400\<rfloor>"

definition Pt :: "int \<Rightarrow> int" where
  "Pt n = n * 12700"

datatype alignment = LEFT | CENTER | RIGHT

record run =
  run_text :: string
  bold :: bool
  font_size :: "int option"

record para =
  runs :: "run list"
  alignment :: "alignment option"

type_synonym cell = "para list"

record table =
  table_rows :: "cell list list"
  column_widths :: "int option list"
  autofit :: bool
  table_style :: "string option"

datatype block = Paragraph para | Table table

record page_section =
  top_margin :: int
  bottom_margin :: int
  left_margin :: int
  right_margin :: int

record document =
  sections :: "page_section list"
  body :: "block list"

text \<open>\<^verbatim>\<open>Document()\<close>: the default template has one section and an empty body.\<close>

definition new_document :: document where
  "new_document =
     \<lparr>sections = [\<lparr>top_margin = Inches 1, bottom_margin = Inches 1,
                   left_margin = Inches (5 / 4), right_margin = Inches (5 / 4)\<rparr>],
      body = []\<rparr>"

definition plain_run :: "string \<Rightarrow> run" where
  "plain_run s = \<lparr>run_text = s, bold = False, font_size = None\<rparr>"

definition empty_paragraph :: para where
  "empty_paragraph = \<lparr>runs = [], alignment = None\<rparr>"

definition text_paragraph :: "string \<Rightarrow> para" where
  "text_paragraph s = \<lparr>runs = [plain_run s], alignment = None\<rparr>"

text \<open>A fresh table cell holds one empty paragraph; \<^verbatim>\<open>add_table(rows=1, cols=n)\<close>
  makes one row of such cells, with the column widths python-docx derives from the
  page (left as \<open>None\<close> until the code sets them).\<close>

definition new_cell :: cell where
  "new_cell = [empty_paragraph]"

definition add_table :: "nat \<Rightarrow> table" where
  "add_table cols =
     \<lparr>table_rows = [replicate cols new_cell], column_widths = replicate cols None,
      autofit = True, table_style = None\<rparr>"

text \<open>The text a run receives: a string as it is, any other value as python-docx
  treats it.\<close>

fun docx_run_text :: "py_runtime \<Rightarrow> json \<Rightarrow> exn + string" where
  "docx_run_text rt (JStr s) = Inr s"
| "docx_run_text rt v =
     (case docx_text_of rt v of
        Some s \<Rightarrow> Inr s
      | None \<Rightarrow> Inl (Exn TypeError ''object is not iterable''))"

text \<open>\<^verbatim>\<open>cell.add_paragraph(text)\<close>: a new paragraph, with one run when \<open>text\<close> is
  truthy. The result is the paragraph to append.\<close>

definition docx_add_paragraph :: "py_runtime \<Rightarrow> json \<Rightarrow> exn + para" where
  "docx_add_paragraph rt v =
     (if py_truthy v then bindE (docx_run_text rt v) (\<lambda>s. Inr (text_paragraph s))
      else Inr empty_paragraph)"

text \<open>\<^verbatim>\<open>cell.text = v\<close>: the cell's content becomes one paragraph with one run.\<close>

definition docx_set_cell_text :: "py_runtime \<Rightarrow> json \<Rightarrow> exn + cell" where
  "docx_set_cell_text rt v = bindE (docx_run_text rt v) (\<lambda>s. Inr [text_paragraph s])"

text \<open>Running a fallible step over a list, stopping at the first exception, as the
  body of a \<^verbatim>\<open>for\<close> loop does.\<close>

fun mapE :: "('a \<Rightarrow> exn + 'b) \<Rightarrow> 'a list \<Rightarrow> exn + 'b list" where
  "mapE f [] = Inr []"
| "mapE f (x # xs) = bindE (f x) (\<lambda>y. bindE (mapE f xs) (\<lambda>ys. Inr (y # ys)))"

section \<open>The generator\<close>

record shopify_config =
  shop_domain :: string
  shopify_access_token :: string
  api_version :: string

text \<open>The fourth entry of \<^verbatim>\<open>office_config\<close>, the cached bearer token, starts as
  \<^verbatim>\<open>None\<close> and later holds whatever the token endpoint returned.\<close>

record office_config =
  client_id :: "string option"
  client_secret :: "string option"
  tenant_id :: "string option"
  access_token :: json

record company_info =
  company_name :: string
  company_address :: string
  company_phone :: string
  company_email :: string
  company_tax_id :: string

record generator =
  shopify :: shopify_config
  office :: office_config
  company :: company_info

definition a_acute :: string where "a_acute = [CHR 0xC3, CHR 0xA1]"
definition e_acute :: string where "e_acute = [CHR 0xC3, CHR 0xA9]"
definition i_acute :: string where "i_acute = [CHR 0xC3, CHR 0xAD]"
definition o_acute :: string where "o_acute = [CHR 0xC3, CHR 0xB3]"

definition config_get :: "(string \<rightharpoonup> string) \<Rightarrow> string \<Rightarrow> string \<Rightarrow> string" where
  "config_get config k dflt = (case config k of Some v \<Rightarrow> v | None \<Rightarrow> dflt)"

text \<open>\<^verbatim>\<open>__init__\<close>: the two Shopify keys are required, everything else is optional.\<close>

definition init_generator :: "(string \<rightharpoonup> string) \<Rightarrow> exn + generator" where
  "init_generator config =
     (case config ''shop_domain'' of
        None \<Rightarrow> Inl (Exn KeyError ([CHR 0x27] @ ''shop_domain'' @ [CHR 0x27]))
      | Some sd \<Rightarrow>
     (case config ''shopify_access_token'' of
        None \<Rightarrow> Inl (Exn KeyError ([CHR 0x27] @ ''shopify_access_token'' @ [CHR 0x27]))
      | Some tok \<Rightarrow>
          Inr \<lparr>shopify = \<lparr>shop_domain = sd, shopify_access_token = tok,
                            api_version = ''2023-10''\<rparr>,
               office = \<lparr>client_id = config ''office_client_id'',
                          client_secret = config ''office_client_secret'',
                          tenant_id = config ''office_tenant_id'',
                          access_token = JNull\<rparr>,
               company =
                 \<lparr>company_name = config_get config ''company_name'' ''Tu Empresa'',
                  company_address = config_get config ''company_address''
                    (''Direcci'' @ o_acute @ ''n de tu empresa''),
                  company_phone = config_get config ''company_phone''
                    (''Tel'' @ e_acute @ ''fono''),
                  company_email = config_get config ''company_email'' ''email@empresa.com'',
                  company_tax_id = config_get config ''company_tax_id'' ''NIT/RUT''\<rparr>\<rparr>))"

section \<open>The world outside the process\<close>

text \<open>
  The file system, the clock and the two HTTP services are the generator's external
  collaborators. Their answers are parameters:
  \<^item> \<open>http_get\<close>, \<open>http_post\<close>, \<open>http_put\<close> give, for a request, the exception that
    \<^verbatim>\<open>requests\<close>, \<^verbatim>\<open>raise_for_status\<close> or \<^verbatim>\<open>response.json()\<close> raises, or the
    decoded body;
  \<^item> \<open>clock n\<close> is the \<open>n\<close>-th reading of \<^verbatim>\<open>datetime.now()\<close>;
  \<^item> \<open>posix_seconds\<close> is \<^verbatim>\<open>int(dt.timestamp())\<close> on such a reading;
  \<^item> \<open>write_error\<close> and \<open>remove_error\<close> give the exception, if any, with which saving
    or removing the file at a path fails.
  The state holds the files written, the number of clock readings and the log of
  the requests and file operations attempted, oldest first.
\<close>

datatype event =
  HttpGet string | HttpPost string | HttpPut string
  | FileWrite string | FileRead string | FileRemove string

record external =
  http_get :: "string \<Rightarrow> (string \<times> string) list \<Rightarrow> exn + json"
  http_post :: "string \<Rightarrow> (string \<times> json) list \<Rightarrow> exn + json"
  http_put :: "string \<Rightarrow> (string \<times> string) list \<Rightarrow> document \<Rightarrow> exn + json"
  clock :: "nat \<Rightarrow> datetime"
  posix_seconds :: "datetime \<Rightarrow> int"
  write_error :: "string \<Rightarrow> exn option"
  remove_error :: "string \<Rightarrow> exn option"

record world =
  files :: "string \<rightharpoonup> document"
  clock_reads :: nat
  events :: "event list"

definition datetime_now :: "external \<Rightarrow> world \<Rightarrow> datetime \<times> world" where
  "datetime_now io w = (clock io (clock_reads w), w\<lparr>clock_reads := Suc (clock_reads w)\<rparr>)"

definition log_event :: "event \<Rightarrow> world \<Rightarrow> world" where
  "log_event ev w = w\<lparr>events := events w @ [ev]\<rparr>"

text \<open>\<^verbatim>\<open>doc.save(path)\<close>.\<close>

definition save_document :: "external \<Rightarrow> string \<Rightarrow> document \<Rightarrow> world \<Rightarrow> (exn + unit) \<times> world" where
  "save_document io path doc w =
     (case write_error io path of
        Some e \<Rightarrow> (Inl e, log_event (FileWrite path) w)
      | None \<Rightarrow> (Inr (), (log_event (FileWrite path) w)\<lparr>files := (files w)(path \<mapsto> doc)\<rparr>))"

text \<open>\<^verbatim>\<open>os.remove(path)\<close>.\<close>

definition os_remove :: "external \<Rightarrow> string \<Rightarrow> world \<Rightarrow> (exn + unit) \<times> world" where
  "os_remove io path w =
     (case files w path of
        None \<Rightarrow> (Inl (Exn OSError (''No such file or directory: '' @ path)),
                 log_event (FileRemove path) w)
      | Some doc \<Rightarrow>
          (case remove_error io path of
             Some e \<Rightarrow> (Inl e, log_event (FileRemove path) w)
           | None \<Rightarrow> (Inr (), (log_event (FileRemove path) w)\<lparr>files := (files w)(path := None)\<rparr>)))"

section \<open>Invoice Renderer\<close>

text \<open>\<^verbatim>\<open>add_paragraph(s)\<close> for a string \<open>s\<close>: a run is added when \<open>s\<close> is not empty.\<close>

definition str_paragraph :: "string \<Rightarrow> para" where
  "str_paragraph s = (if s \<noteq> [] then text_paragraph s else empty_paragraph)"

definition styled_run :: "string \<Rightarrow> int \<Rightarrow> run" where
  "styled_run s pts = \<lparr>run_text = s, bold = True, font_size = Some (Pt pts)\<rparr>"

definition bold_run :: "string \<Rightarrow> run" where
  "bold_run s = \<lparr>run_text = s, bold = True, font_size = None\<rparr>"

definition aligned :: "alignment \<Rightarrow> para \<Rightarrow> para" where
  "aligned a p = p\<lparr>alignment := Some a\<rparr>"

subsection \<open>Header\<close>

definition company_cell :: "company_info \<Rightarrow> cell" where
  "company_cell ci =
     [\<lparr>runs = [styled_run (company_name ci) 18], alignment = None\<rparr>,
      str_paragraph (company_address ci),
      str_paragraph (''Tel: '' @ company_phone ci),
      str_paragraph (''Email: '' @ company_email ci),
      str_paragraph (company_tax_id ci)]"

text \<open>The first two lines of the invoice information, evaluated before the clock is
  read: the order number and the formatted creation date.\<close>

definition invoice_info_head :: "py_runtime \<Rightarrow> json \<Rightarrow> exn + string" where
  "invoice_info_head rt order_data =
     bindE (py_getitem order_data ''order_number'') (\<lambda>order_number.
     bindE (py_getitem order_data ''created_at'') (\<lambda>created_at.
       Inr (''No. Orden: '' @ py_str rt order_number @ [CHR 0x0A]
            @ ''Fecha: '' @ py_str rt (format_date rt created_at) @ [CHR 0x0A])))"

definition invoice_cell :: "string \<Rightarrow> cell" where
  "invoice_cell invoice_info_text =
     [\<lparr>runs = [styled_run ''FACTURA'' 20], alignment = Some RIGHT\<rparr>,
      \<lparr>runs = [plain_run invoice_info_text], alignment = Some RIGHT\<rparr>]"

definition header_table :: "company_info \<Rightarrow> string \<Rightarrow> table" where
  "header_table ci invoice_info_text =
     (add_table 2)\<lparr>autofit := False,
       column_widths := [Some (Inches (7 / 2)), Some (Inches (5 / 2))],
       table_rows := [[company_cell ci, invoice_cell invoice_info_text]]\<rparr>"

subsection \<open>Customer block\<close>

definition bill_to_cell :: "py_runtime \<Rightarrow> json \<Rightarrow> exn + cell" where
  "bill_to_cell rt order_data =
     bindE (py_get order_data ''customer'' (JObj [])) (\<lambda>customer.
       if py_truthy customer
       then
         bindE (py_get customer ''first_name'' (JStr [])) (\<lambda>first_name.
         bindE (py_get customer ''last_name'' (JStr [])) (\<lambda>last_name.
         bindE (py_get customer ''email'' (JStr [])) (\<lambda>email.
         bindE (docx_add_paragraph rt email) (\<lambda>email_par.
         bindE (py_get customer ''phone'' JNull) (\<lambda>phone.
         bindE (if py_truthy phone
                then bindE (py_getitem customer ''phone'') (\<lambda>ph.
                     bindE (docx_add_paragraph rt ph) (\<lambda>p. Inr [p]))
                else Inr []) (\<lambda>phone_pars.
           Inr ([\<lparr>runs = [bold_run ''FACTURAR A:''], alignment = None\<rparr>,
                 str_paragraph (py_str rt first_name @ '' '' @ py_str rt last_name),
                 email_par] @ phone_pars)))))))
       else Inr [\<lparr>runs = [bold_run ''FACTURAR A:''], alignment = None\<rparr>])"

definition no_shipping_text :: string where
  "no_shipping_text = ''Informaci'' @ o_acute @ ''n de env'' @ i_acute @ ''o no disponible''"

definition ship_to_cell :: "py_runtime \<Rightarrow> json \<Rightarrow> exn + cell" where
  "ship_to_cell rt order_data =
     bindE (py_get order_data ''shipping_address'' JNull) (\<lambda>shipping_address.
       if py_truthy shipping_address
       then
         bindE (py_get shipping_address ''first_name'' (JStr [])) (\<lambda>first_name.
         bindE (py_get shipping_address ''last_name'' (JStr [])) (\<lambda>last_name.
         bindE (py_get shipping_address ''address1'' (JStr [])) (\<lambda>address1.
         bindE (docx_add_paragraph rt address1) (\<lambda>address1_par.
         bindE (py_get shipping_address ''address2'' JNull) (\<lambda>address2.
         bindE (if py_truthy address2
                then bindE (py_getitem shipping_address ''address2'') (\<lambda>a2.
                     bindE (docx_add_paragraph rt a2) (\<lambda>p. Inr [p]))
                else Inr []) (\<lambda>address2_pars.
         bindE (py_get shipping_address ''city'' (JStr [])) (\<lambda>city.
         bindE (py_get shipping_address ''province'' (JStr [])) (\<lambda>province.
         bindE (py_get shipping_address ''zip'' (JStr [])) (\<lambda>zip_code.
         bindE (py_get shipping_address ''country'' (JStr [])) (\<lambda>country.
           Inr ([\<lparr>runs = [bold_run ''ENVIAR A:''], alignment = None\<rparr>,
                 str_paragraph (py_str rt first_name @ '' '' @ py_str rt last_name),
                 address1_par] @ address2_pars @
                [str_paragraph (py_str rt city @ '', '' @ py_str rt province),
                 str_paragraph (py_str rt zip_code @ '' - '' @ py_str rt country)])))))))))))
       else Inr [\<lparr>runs = [bold_run ''ENVIAR A:''], alignment = None\<rparr>,
                 str_paragraph no_shipping_text])"

definition customer_table :: "cell \<Rightarrow> cell \<Rightarrow> table" where
  "customer_table bill_to ship_to =
     (add_table 2)\<lparr>autofit := False,
       column_widths := [Some (Inches 3), Some (Inches 3)],
       table_rows := [[bill_to, ship_to]]\<rparr>"

subsection \<open>Line-item table\<close>

definition items_header_row :: "cell list" where
  "items_header_row =
     map (\<lambda>header. [\<lparr>runs = [bold_run header], alignment = None\<rparr>])
       [''Producto'', ''SKU'', ''Cantidad'', ''Precio Unit.'', ''Total'']"

text \<open>One pass of the loop over the line items: the five cells of the new row.\<close>

definition item_row :: "py_runtime \<Rightarrow> json \<Rightarrow> exn + cell list" where
  "item_row rt item =
     bindE (py_getitem item ''title'') (\<lambda>title.
     bindE (py_get item ''variant_title'' JNull) (\<lambda>variant.
     bindE (if py_truthy variant
            then bindE (py_getitem item ''variant_title'') (\<lambda>variant_title.
                 py_iadd_str title ([CHR 0x0A] @ py_str rt variant_title))
            else Inr title) (\<lambda>product_name.
     bindE (docx_set_cell_text rt product_name) (\<lambda>cell0.
     bindE (py_get item ''sku'' (JStr ''N/A'')) (\<lambda>sku.
     bindE (docx_set_cell_text rt sku) (\<lambda>cell1.
     bindE (py_getitem item ''quantity'') (\<lambda>quantity.
     bindE (py_getitem item ''price'') (\<lambda>price.
     bindE (py_float rt price) (\<lambda>unit_price.
     bindE (format_currency unit_price) (\<lambda>unit_text.
     bindE (py_float_times rt unit_price quantity) (\<lambda>line_total.
     bindE (format_currency line_total) (\<lambda>total_text.
       Inr [cell0, cell1, [text_paragraph (py_str rt quantity)],
            [text_paragraph unit_text], [text_paragraph total_text]]))))))))))))"

definition items_table :: "py_runtime \<Rightarrow> json \<Rightarrow> exn + table" where
  "items_table rt order_data =
     bindE (py_getitem order_data ''line_items'') (\<lambda>line_items.
     bindE (py_iter line_items) (\<lambda>items.
     bindE (mapE (item_row rt) items) (\<lambda>item_rows.
       Inr ((add_table 5)\<lparr>table_style := Some ''Table Grid'',
              table_rows := items_header_row # item_rows\<rparr>))))"

subsection \<open>Totals block\<close>

definition order_subtotal :: "py_runtime \<Rightarrow> json \<Rightarrow> exn + pyfloat" where
  "order_subtotal rt order_data =
     bindE (py_getitem order_data ''subtotal_price'') (py_float rt)"

definition order_taxes :: "py_runtime \<Rightarrow> json \<Rightarrow> exn + pyfloat" where
  "order_taxes rt order_data =
     bindE (py_get order_data ''total_tax'' (JInt 0)) (py_float rt)"

definition order_shipping :: "py_runtime \<Rightarrow> json \<Rightarrow> exn + pyfloat" where
  "order_shipping rt order_data =
     bindE (py_get order_data ''total_shipping_price_set'' (JObj [])) (\<lambda>price_set.
     bindE (py_get price_set ''shop_money'' (JObj [])) (\<lambda>shop_money.
     bindE (py_get shop_money ''amount'' (JInt 0)) (py_float rt)))"

definition order_total :: "py_runtime \<Rightarrow> json \<Rightarrow> exn + pyfloat" where
  "order_total rt order_data =
     bindE (py_getitem order_data ''total_price'') (py_float rt)"

definition shipping_label :: string where
  "shipping_label = ''Env'' @ i_acute @ ''o: ''"

definition totals_cell :: "py_runtime \<Rightarrow> json \<Rightarrow> exn + cell" where
  "totals_cell rt order_data =
     bindE (order_subtotal rt order_data) (\<lambda>subtotal.
     bindE (order_taxes rt order_data) (\<lambda>taxes.
     bindE (order_shipping rt order_data) (\<lambda>shipping.
     bindE (order_total rt order_data) (\<lambda>total.
     bindE (format_currency subtotal) (\<lambda>subtotal_text.
     bindE (if float_gt_zero shipping
            then bindE (format_currency shipping) (\<lambda>s.
                   Inr [aligned RIGHT (str_paragraph (shipping_label @ s))])
            else Inr []) (\<lambda>shipping_pars.
     bindE (if float_gt_zero taxes
            then bindE (format_currency taxes) (\<lambda>s.
                   Inr [aligned RIGHT (str_paragraph (''Impuestos: '' @ s))])
            else Inr []) (\<lambda>taxes_pars.
     bindE (format_currency total) (\<lambda>total_text.
       Inr ([aligned RIGHT empty_paragraph,
             aligned RIGHT (str_paragraph (''Subtotal: '' @ subtotal_text))]
            @ shipping_pars @ taxes_pars @
            [\<lparr>runs = [styled_run (''TOTAL: '' @ total_text) 14],
              alignment = Some RIGHT\<rparr>])))))))))"

definition totals_table :: "cell \<Rightarrow> table" where
  "totals_table totals =
     (add_table 2)\<lparr>autofit := False,
       column_widths := [Some (Inches 4), Some (Inches 2)],
       table_rows := [[new_cell, totals]]\<rparr>"

subsection \<open>The whole document\<close>

definition footer_note :: string where
  "footer_note = ''Esta es una factura generada autom'' @ a_acute @ ''ticamente''"

definition set_margins :: "page_section \<Rightarrow> page_section" where
  "set_margins sec =
     sec\<lparr>top_margin := Inches (1 / 2), bottom_margin := Inches (1 / 2),
         left_margin := Inches (3 / 4), right_margin := Inches (3 / 4)\<rparr>"

text \<open>The finished document: margins set on every section, then the ten blocks of
  the body in the order in which the source adds them.\<close>

definition assemble_document ::
  "company_info \<Rightarrow> string \<Rightarrow> cell \<Rightarrow> cell \<Rightarrow> table \<Rightarrow> cell \<Rightarrow> document" where
  "assemble_document ci invoice_info_text bill_to ship_to items totals =
     \<lparr>sections = map set_margins (sections new_document),
      body =
        [Table (header_table ci invoice_info_text),
         Paragraph empty_paragraph,
         Table (customer_table bill_to ship_to),
         Paragraph empty_paragraph,
         Table items,
         Paragraph empty_paragraph,
         Table (totals_table totals),
         Paragraph empty_paragraph,
         Paragraph (aligned CENTER
           \<lparr>runs = [plain_run (''Gracias por su compra | '' @ company_name ci)],
            alignment = None\<rparr>),
         Paragraph (aligned CENTER (str_paragraph footer_note))]\<rparr>"

text \<open>Everything \<^verbatim>\<open>create_word_document\<close> puts into the document once the invoice
  information text is known, with the exceptions in the order of the source.\<close>

definition invoice_document ::
  "py_runtime \<Rightarrow> company_info \<Rightarrow> json \<Rightarrow> string \<Rightarrow> exn + document" where
  "invoice_document rt ci order_data invoice_info_text =
     bindE (bill_to_cell rt order_data) (\<lambda>bill_to.
     bindE (ship_to_cell rt order_data) (\<lambda>ship_to.
     bindE (items_table rt order_data) (\<lambda>items.
     bindE (totals_cell rt order_data) (\<lambda>totals.
       Inr (assemble_document ci invoice_info_text bill_to ship_to items totals)))))"

text \<open>
  \<^verbatim>\<open>create_word_document\<close>. The clock is read after the order number and the creation
  date have been formatted; the due date is that reading plus 30 days. Whatever is
  raised is printed and raised again.
\<close>

definition create_word_document ::
  "py_runtime \<Rightarrow> external \<Rightarrow> generator \<Rightarrow> json \<Rightarrow> string \<Rightarrow> world
     \<Rightarrow> (exn + string) \<times> world" where
  "create_word_document rt io self order_data filename w =
     (case invoice_info_head rt order_data of
        Inl e \<Rightarrow> (Inl e, w)
      | Inr info_head \<Rightarrow>
          (case datetime_now io w of
             (now, w1) \<Rightarrow>
               (case bindE (add_days now 30) (\<lambda>due.
                       invoice_document rt (company self) order_data
                         (info_head @ ''Vencimiento: '' @ strftime_dmY due)) of
                  Inl e \<Rightarrow> (Inl e, w1)
                | Inr doc \<Rightarrow>
                    (case save_document io (filename @ ''.docx'') doc w1 of
                       (Inl e, w2) \<Rightarrow> (Inl e, w2)
                     | (Inr u, w2) \<Rightarrow> (Inr (filename @ ''.docx''), w2)))))"

section \<open>Order Data Client\<close>

text \<open>
  \<^verbatim>\<open>get_shopify_order\<close>: one authenticated read; the handler for
  \<^verbatim>\<open>RequestException\<close> prints and raises again, every other exception leaves the
  function as it is.
\<close>

definition order_url :: "generator \<Rightarrow> string \<Rightarrow> string" where
  "order_url self order_id =
     ''https://'' @ shop_domain (shopify self) @ ''/admin/api/''
       @ api_version (shopify self) @ ''/orders/'' @ order_id @ ''.json''"

definition get_shopify_order ::
  "external \<Rightarrow> generator \<Rightarrow> string \<Rightarrow> world \<Rightarrow> (exn + json) \<times> world" where
  "get_shopify_order io self order_id w =
     (bindE (http_get io (order_url self order_id)
               [(''X-Shopify-Access-Token'', shopify_access_token (shopify self))])
            (\<lambda>response. py_getitem response ''order''),
      log_event (HttpGet (order_url self order_id)) w)"

section \<open>Cloud Upload Client\<close>

definition str_opt :: "string option \<Rightarrow> json" where
  "str_opt v = (case v of None \<Rightarrow> JNull | Some s \<Rightarrow> JStr s)"

definition token_url :: "py_runtime \<Rightarrow> generator \<Rightarrow> string" where
  "token_url rt self =
     ''https://login.microsoftonline.com/'' @ py_str rt (str_opt (tenant_id (office self)))
       @ ''/oauth2/v2.0/token''"

text \<open>\<^verbatim>\<open>get_office_access_token\<close>: the token is stored in the generator and
  returned.\<close>

definition get_office_access_token ::
  "py_runtime \<Rightarrow> external \<Rightarrow> generator \<Rightarrow> world \<Rightarrow> (exn + json) \<times> generator \<times> world" where
  "get_office_access_token rt io self w =
     (case bindE (http_post io (token_url rt self)
                    [(''client_id'', str_opt (client_id (office self))),
                     (''client_secret'', str_opt (client_secret (office self))),
                     (''scope'', JStr ''https://graph.microsoft.com/.default''),
                     (''grant_type'', JStr ''client_credentials'')])
                 (\<lambda>token_data. py_getitem token_data ''access_token'') of
        Inl e \<Rightarrow> (Inl e, self, log_event (HttpPost (token_url rt self)) w)
      | Inr token \<Rightarrow>
          (Inr token, self\<lparr>office := (office self)\<lparr>access_token := token\<rparr>\<rparr>,
           log_event (HttpPost (token_url rt self)) w))"

record cloud_info =
  document_id :: json
  web_url :: json
  download_url :: json

definition upload_url :: "string \<Rightarrow> string" where
  "upload_url filename =
     ''https://graph.microsoft.com/v1.0/me/drive/root:/'' @ filename @ ''.docx:/content''"

definition docx_content_type :: string where
  "docx_content_type =
     ''application/vnd.openxmlformats-officedocument.wordprocessingml.document''"

text \<open>The part of \<^verbatim>\<open>upload_to_onedrive\<close> after the token is there: read the file,
  send it, pick the three fields of the answer.\<close>

definition put_file ::
  "py_runtime \<Rightarrow> external \<Rightarrow> generator \<Rightarrow> string \<Rightarrow> string \<Rightarrow> world
     \<Rightarrow> (exn + cloud_info) \<times> world" where
  "put_file rt io self file_path filename w =
     (case files w file_path of
        None \<Rightarrow> (Inl (Exn OSError (''No such file or directory: '' @ file_path)),
                 log_event (FileRead file_path) w)
      | Some file_content \<Rightarrow>
          (bindE (http_put io (upload_url filename)
                    [(''Authorization'', ''Bearer '' @ py_str rt (access_token (office self))),
                     (''Content-Type'', docx_content_type)]
                    file_content) (\<lambda>file_info.
           bindE (py_getitem file_info ''id'') (\<lambda>fid.
           bindE (py_getitem file_info ''webUrl'') (\<lambda>web.
           bindE (py_getitem file_info ''@microsoft.graph.downloadUrl'') (\<lambda>dl.
             Inr \<lparr>document_id = fid, web_url = web, download_url = dl\<rparr>)))),
           log_event (HttpPut (upload_url filename)) (log_event (FileRead file_path) w)))"

text \<open>\<^verbatim>\<open>upload_to_onedrive\<close>: a token is fetched first when none is cached.\<close>

definition upload_to_onedrive ::
  "py_runtime \<Rightarrow> external \<Rightarrow> generator \<Rightarrow> string \<Rightarrow> string \<Rightarrow> world
     \<Rightarrow> (exn + cloud_info) \<times> generator \<times> world" where
  "upload_to_onedrive rt io self file_path filename w =
     (if \<not> py_truthy (access_token (office self))
      then (case get_office_access_token rt io self w of
              (Inl e, self1, w1) \<Rightarrow> (Inl e, self1, w1)
            | (Inr token, self1, w1) \<Rightarrow>
                (case put_file rt io self1 file_path filename w1 of
                   (r, w2) \<Rightarrow> (r, self1, w2)))
      else (case put_file rt io self file_path filename w of
              (r, w2) \<Rightarrow> (r, self, w2)))"

section \<open>Invoice Orchestrator\<close>

text \<open>The result dictionary: the success form with its optional entries, or the
  failure form with the message.\<close>

datatype invoice_result =
  Success json "string option" "cloud_info option"
  | Failure string

text \<open>\<^verbatim>\<open>all(self.office_config.values())\<close>: all four entries of the dictionary,
  the cached token among them.\<close>

definition all_office_config :: "generator \<Rightarrow> bool" where
  "all_office_config self =
     (py_truthy (str_opt (client_id (office self)))
      \<and> py_truthy (str_opt (client_secret (office self)))
      \<and> py_truthy (str_opt (tenant_id (office self)))
      \<and> py_truthy (access_token (office self)))"

text \<open>The file name base: order number and the clock reading in whole seconds.\<close>

definition invoice_filename :: "py_runtime \<Rightarrow> external \<Rightarrow> json \<Rightarrow> datetime \<Rightarrow> string" where
  "invoice_filename rt io order_number now =
     ''Factura_'' @ py_str rt order_number @ ''_'' @ str_int (posix_seconds io now)"

text \<open>The body of the \<^verbatim>\<open>try\<close> block of \<^verbatim>\<open>generate_invoice\<close>, with the exception it
  may raise.\<close>

definition generate_invoice_body ::
  "py_runtime \<Rightarrow> external \<Rightarrow> generator \<Rightarrow> string \<Rightarrow> bool \<Rightarrow> bool \<Rightarrow> world
     \<Rightarrow> (exn + invoice_result) \<times> generator \<times> world" where
  "generate_invoice_body rt io self order_id save_local upload_to_cloud w =
     (case get_shopify_order io self order_id w of
        (Inl e, w1) \<Rightarrow> (Inl e, self, w1)
      | (Inr order_data, w1) \<Rightarrow>
     (case py_getitem order_data ''order_number'' of
        Inl e \<Rightarrow> (Inl e, self, w1)
      | Inr order_number \<Rightarrow>
     (case datetime_now io w1 of
        (now, w2) \<Rightarrow>
     (let filename = invoice_filename rt io order_number now
      in
     (case create_word_document rt io self order_data filename w2 of
        (Inl e, w3) \<Rightarrow> (Inl e, self, w3)
      | (Inr local_file_path, w3) \<Rightarrow>
          (if upload_to_cloud \<and> all_office_config self
           then
             (case upload_to_onedrive rt io self local_file_path filename w3 of
                (Inl e, self1, w4) \<Rightarrow> (Inl e, self1, w4)
              | (Inr info, self1, w4) \<Rightarrow>
                  (if \<not> save_local
                   then (case os_remove io local_file_path w4 of
                           (Inl e, w5) \<Rightarrow> (Inl e, self1, w5)
                         | (Inr u, w5) \<Rightarrow>
                             (Inr (Success order_number None (Some info)), self1, w5))
                   else (Inr (Success order_number
                                (if save_local then Some local_file_path else None)
                                (Some info)), self1, w4)))
           else (Inr (Success order_number
                        (if save_local then Some local_file_path else None) None),
                 self, w3)))))))"

text \<open>\<^verbatim>\<open>generate_invoice\<close>: \<^verbatim>\<open>except Exception\<close> turns what the body raises into
  the failure result.\<close>

definition generate_invoice ::
  "py_runtime \<Rightarrow> external \<Rightarrow> generator \<Rightarrow> string \<Rightarrow> bool \<Rightarrow> bool \<Rightarrow> world
     \<Rightarrow> invoice_result \<times> generator \<times> world" where
  "generate_invoice rt io self order_id save_local upload_to_cloud w =
     (case generate_invoice_body rt io self order_id save_local upload_to_cloud w of
        (Inl e, self1, w1) \<Rightarrow> (Failure (str_exn e), self1, w1)
      | (Inr result, self1, w1) \<Rightarrow> (result, self1, w1))"

section \<open>Reading a rendered document\<close>

text \<open>The text of the invoice information run: header table, right cell, second
  paragraph.\<close>

definition invoice_info_text :: "document \<Rightarrow> string option" where
  "invoice_info_text doc =
     (case body doc of
        Table t # rest \<Rightarrow>
          (case table_rows t of
             [[c0, [p0, p1]]] \<Rightarrow>
               (case runs p1 of [r] \<Rightarrow> Some (run_text r) | _ \<Rightarrow> None)
           | _ \<Rightarrow> None)
      | _ \<Rightarrow> None)"

definition last_line :: "string \<Rightarrow> string" where
  "last_line t = rev (takeWhile (\<lambda>c. c \<noteq> CHR 0x0A) (rev t))"

text \<open>The due date as printed: what follows \<^verbatim>\<open>Vencimiento: \<close> on the last line of the
  invoice information.\<close>

definition printed_due_date :: "document \<Rightarrow> string option" where
  "printed_due_date doc =
     (case invoice_info_text doc of
        None \<Rightarrow> None
      | Some t \<Rightarrow>
          (if take 13 (last_line t) = ''Vencimiento: '' then Some (drop 13 (last_line t))
           else None))"

text \<open>The same document with the printed due date erased.\<close>

definition blank_due_date :: "document \<Rightarrow> document" where
  "blank_due_date doc =
     (case body doc of
        Table t # rest \<Rightarrow>
          (case table_rows t of
             [[c0, [p0, p1]]] \<Rightarrow>
               (case runs p1 of
                  [r] \<Rightarrow>
                    doc\<lparr>body :=
                      Table (t\<lparr>table_rows :=
                        [[c0, [p0, p1\<lparr>runs :=
                          [r\<lparr>run_text :=
                             take (length (run_text r) - length (last_line (run_text r)) + 13)
                               (run_text r)\<rparr>]\<rparr>]]]\<rparr>) # rest\<rparr>
                | _ \<Rightarrow> doc)
           | _ \<Rightarrow> doc)
      | _ \<Rightarrow> doc)"

text \<open>
  The due date in the words of the specification: the creation date of the order plus
  30 calendar days, in the format of the invoice.
\<close>

definition spec_due_date :: "py_runtime \<Rightarrow> json \<Rightarrow> string option" where
  "spec_due_date rt order_data =
     (case py_getitem order_data ''created_at'' of
        Inr (JStr s) \<Rightarrow>
          (case fromisoformat rt (replace_Z s) of
             Some created \<Rightarrow>
               (case add_days created 30 of
                  Inr due \<Rightarrow> Some (strftime_dmY due)
                | Inl e \<Rightarrow> None)
           | None \<Rightarrow> None)
      | _ \<Rightarrow> None)"

text \<open>The totals cell (second cell of the seventh block) and the rows of the line-item
  table below its header (fifth block).\<close>

definition totals_block :: "document \<Rightarrow> cell option" where
  "totals_block doc =
     (if length (body doc) = 10
      then (case body doc ! 6 of
              Table t \<Rightarrow> (case table_rows t of [[c0, c1]] \<Rightarrow> Some c1 | _ \<Rightarrow> None)
            | _ \<Rightarrow> None)
      else None)"

definition item_rows :: "document \<Rightarrow> cell list list option" where
  "item_rows doc =
     (if length (body doc) = 10
      then (case body doc ! 4 of
              Table t \<Rightarrow> (case table_rows t of h # rs \<Rightarrow> Some rs | _ \<Rightarrow> None)
            | _ \<Rightarrow> None)
      else None)"

text \<open>A cell has a line with a given label when one of its runs starts with it.\<close>

definition has_line :: "string \<Rightarrow> cell \<Rightarrow> bool" where
  "has_line label c =
     (\<exists>p \<in> set c. \<exists>r \<in> set (runs p). take (length label) (run_text r) = label)"

section \<open>An example order\<close>

text \<open>The configuration of \<^verbatim>\<open>src/app.py\<close>, and the same with cloud credentials.\<close>

definition app_config :: "string \<rightharpoonup> string" where
  "app_config =
     [''shop_domain'' \<mapsto> ''cshop.co'',
      ''shopify_access_token'' \<mapsto> ''shpat_tu_token'',
      ''company_name'' \<mapsto> ''CSHOP SAS'',
      ''company_address'' \<mapsto> ''CRA 34 3-65'',
      ''company_phone'' \<mapsto> ''+57 3158103812'',
      ''company_email'' \<mapsto> ''info@cshop.co'',
      ''company_tax_id'' \<mapsto> ''NIT: 901410087-8'']"

definition cloud_config :: "string \<rightharpoonup> string" where
  "cloud_config =
     app_config(''office_client_id'' \<mapsto> ''client-1'',
                ''office_client_secret'' \<mapsto> ''secret-1'',
                ''office_tenant_id'' \<mapsto> ''tenant-1'')"

definition app_generator :: generator where
  "app_generator =
     \<lparr>shopify = \<lparr>shop_domain = ''cshop.co'', shopify_access_token = ''shpat_tu_token'',
                  api_version = ''2023-10''\<rparr>,
      office = \<lparr>client_id = None, client_secret = None, tenant_id = None,
                 access_token = JNull\<rparr>,
      company = \<lparr>company_name = ''CSHOP SAS'', company_address = ''CRA 34 3-65'',
                  company_phone = ''+57 3158103812'', company_email = ''info@cshop.co'',
                  company_tax_id = ''NIT: 901410087-8''\<rparr>\<rparr>"

definition cloud_generator :: generator where
  "cloud_generator =
     app_generator\<lparr>office :=
       \<lparr>client_id = Some ''client-1'', client_secret = Some ''secret-1'',
        tenant_id = Some ''tenant-1'', access_token = JNull\<rparr>\<rparr>"

text \<open>Order 1001, created on 5 March 2024: two line items, no shipping address.\<close>

definition order_1001 :: json where
  "order_1001 =
     JObj [(''id'', JInt 1001),
           (''order_number'', JStr ''#1001''),
           (''created_at'', JStr ''2024-03-05T10:00:00Z''),
           (''customer'', JObj [(''first_name'', JStr ''Ana''),
                                (''last_name'', JStr ''Rojas''),
                                (''email'', JStr ''ana@example.com'')]),
           (''line_items'',
              JArr [JObj [(''title'', JStr ''Camiseta''), (''quantity'', JInt 2),
                          (''price'', JStr ''5000.00'')],
                    JObj [(''title'', JStr ''Gorra''), (''variant_title'', JStr ''Azul''),
                          (''sku'', JStr ''GOR-01''), (''quantity'', JInt 1),
                          (''price'', JStr ''10000.00'')]]),
           (''subtotal_price'', JStr ''20000.00''),
           (''total_tax'', JStr ''0.00''),
           (''total_price'', JStr ''20000.00'')]"

text \<open>The order service knows order 1001 only; the clock shows 1 June 2024, 09:00; the
  cloud service accepts every request; the disk accepts every write.\<close>

definition june_first :: datetime where
  "june_first =
     \<lparr>year = 2024, month = 6, day = 1, hour = 9, minute = 0, second = 0,
      microsecond = 0, utcoffset = None\<rparr>"

definition shop_io :: external where
  "shop_io =
     \<lparr>http_get = (\<lambda>url headers.
         if url = ''https://cshop.co/admin/api/2023-10/orders/1001.json''
         then Inr (JObj [(''order'', order_1001)])
         else Inl (Exn RequestException (''404 Client Error: Not Found for url: '' @ url))),
      http_post = (\<lambda>url form. Inr (JObj [(''access_token'', JStr ''bearer-1'')])),
      http_put = (\<lambda>url headers content.
         Inr (JObj [(''id'', JStr ''doc-1''), (''webUrl'', JStr ''https://drive/doc-1''),
                    (''@microsoft.graph.downloadUrl'', JStr ''https://drive/dl/doc-1'')])),
      clock = (\<lambda>n. june_first),
      posix_seconds = (\<lambda>dt. 1717232400),
      write_error = (\<lambda>path. None),
      remove_error = (\<lambda>path. None)\<rparr>"

definition empty_world :: world where
  "empty_world = \<lparr>files = Map.empty, clock_reads = 0, events = []\<rparr>"

text \<open>The document expected for order 1001 rendered on 1 June 2024.\<close>

definition document_1001 :: document where
  "document_1001 =
     assemble_document (company app_generator)
       (''No. Orden: #1001'' @ [CHR 0x0A] @ ''Fecha: 05/03/2024'' @ [CHR 0x0A]
          @ ''Vencimiento: 01/07/2024'')
       [\<lparr>runs = [bold_run ''FACTURAR A:''], alignment = None\<rparr>,
        text_paragraph ''Ana Rojas'', text_paragraph ''ana@example.com'']
       [\<lparr>runs = [bold_run ''ENVIAR A:''], alignment = None\<rparr>,
        str_paragraph no_shipping_text]
       ((add_table 5)\<lparr>table_style := Some ''Table Grid'',
              table_rows :=
                [items_header_row,
                 [[text_paragraph ''Camiseta''], [text_paragraph ''N/A''],
                  [text_paragraph ''2''], [text_paragraph ''$5,000 COP''],
                  [text_paragraph ''$10,000 COP'']],
                 [[text_paragraph (''Gorra'' @ [CHR 0x0A] @ ''Azul'')],
                  [text_paragraph ''GOR-01''],
                  [text_paragraph ''1''], [text_paragraph ''$10,000 COP''],
                  [text_paragraph ''$10,000 COP'']]]\<rparr>)
       [aligned RIGHT empty_paragraph,
        aligned RIGHT (text_paragraph ''Subtotal: $20,000 COP''),
        \<lparr>runs = [styled_run ''TOTAL: $20,000 COP'' 14], alignment = Some RIGHT\<rparr>]"

text \<open>A generator that holds a cached token; an order service whose order lacks its
  line items; a cloud service that is down.\<close>

definition token_generator :: generator where
  "token_generator =
     cloud_generator\<lparr>office := (office cloud_generator)\<lparr>access_token := JStr ''bearer-0''\<rparr>\<rparr>"

definition order_without_items :: json where
  "order_without_items =
     JObj [(''order_number'', JInt 1003), (''created_at'', JStr ''2024-03-05T10:00:00Z'')]"

definition broken_io :: external where
  "broken_io =
     shop_io\<lparr>http_get := (\<lambda>url headers. Inr (JObj [(''order'', order_without_items)]))\<rparr>"

definition offline_io :: external where
  "offline_io =
     shop_io\<lparr>http_put := (\<lambda>url headers content.
       Inl (Exn RequestException ''503 Server Error: Service Unavailable''))\<rparr>"

definition url_1001 :: string where
  "url_1001 = ''https://cshop.co/admin/api/2023-10/orders/1001.json''"

definition path_1001 :: string where
  "path_1001 = ''Factura_#1001_1717232400.docx''"

text \<open>What the cloud service of the example answers for an upload.\<close>

definition cloud_info_1001 :: cloud_info where
  "cloud_info_1001 =
     \<lparr>document_id = JStr ''doc-1'', web_url = JStr ''https://drive/doc-1'',
      download_url = JStr ''https://drive/dl/doc-1''\<rparr>"

section \<open>Verified properties\<close>

subsection \<open>Formatter\<close>


lemma replace_Z_created: "replace_Z ''2024-03-05T10:00:00Z'' = ''2024-03-05T10:00:00+00:00''"
  by (simp add: replace_Z_def)

lemma parse_created: "ref_fromisoformat ''2024-03-05T10:00:00+00:00''
     = Some \<lparr>year = 2024, month = 3, day = 5, hour = 10, minute = 0, second = 0,
             microsecond = 0, utcoffset = Some 0\<rparr>"
  by code_simp

lemma strftime_created:
  "strftime_dmY \<lparr>year = 2024, month = 3, day = 5, hour = 10, minute = 0, second = 0,
             microsecond = 0, utcoffset = Some 0\<rparr> = ''05/03/2024''"
  by (simp add: strftime_dmY_def zfill_def str_nat.simps)



subsection \<open>Renderer: general facts\<close>

lemma bindE_Inr_iff: "bindE m f = Inr y \<longleftrightarrow> (\<exists>x. m = Inr x \<and> f x = Inr y)"
  by (cases m) auto

lemma str_nat_digits: "set (str_nat n) \<subseteq> set ''0123456789''"
proof (induction n rule: str_nat.induct)
  case (1 n)
  show ?case
  proof (cases "n < 10")
    case True
    then have "''0123456789'' ! n \<in> set ''0123456789''"
      by (intro nth_mem) simp
    with True show ?thesis by (subst str_nat.simps) simp
  next
    case False
    have "n mod 10 < 10" by simp
    then have "''0123456789'' ! (n mod 10) \<in> set ''0123456789''"
      by (intro nth_mem) simp
    with False 1 show ?thesis by (subst str_nat.simps) simp
  qed
qed

lemma str_nat_no_newline: "CHR 0x0A \<notin> set (str_nat n)"
  using str_nat_digits [of n] by auto

lemma zfill_no_newline: "CHR 0x0A \<notin> set s \<Longrightarrow> CHR 0x0A \<notin> set (zfill k s)"
  by (auto simp: zfill_def)

lemma strftime_no_newline: "CHR 0x0A \<notin> set (strftime_dmY d)"
  by (simp add: strftime_dmY_def zfill_no_newline str_nat_no_newline)

lemma last_line_after_newline:
  assumes "CHR 0x0A \<notin> set s"
  shows "last_line (h @ [CHR 0x0A] @ s) = s"
proof -
  have *: "takeWhile (\<lambda>c. c \<noteq> CHR 0x0A) (rev s) = rev s"
    using assms by (intro takeWhile_eq_all_conv [THEN iffD2]) auto
  show ?thesis by (simp add: last_line_def takeWhile_tail *)
qed

lemma invoice_info_head_newline:
  "invoice_info_head rt order_data = Inr hd_text \<Longrightarrow> \<exists>h. hd_text = h @ [CHR 0x0A]"
  unfolding invoice_info_head_def by (auto simp: bindE_Inr_iff)

lemma invoice_document_body:
  assumes "invoice_document rt ci order_data info = Inr doc"
  shows "\<exists>bill_to ship_to items totals.
           bill_to_cell rt order_data = Inr bill_to \<and> ship_to_cell rt order_data = Inr ship_to
           \<and> items_table rt order_data = Inr items \<and> totals_cell rt order_data = Inr totals
           \<and> doc = assemble_document ci info bill_to ship_to items totals"
  using assms unfolding invoice_document_def by (auto simp: bindE_Inr_iff)

lemma create_word_document_success:
  assumes "create_word_document rt io self order_data filename w = (Inr path, w')"
  shows "\<exists>hd_text due doc.
           invoice_info_head rt order_data = Inr hd_text
           \<and> add_days (clock io (clock_reads w)) 30 = Inr due
           \<and> invoice_document rt (company self) order_data
                (hd_text @ ''Vencimiento: '' @ strftime_dmY due) = Inr doc
           \<and> path = filename @ ''.docx''
           \<and> write_error io path = None
           \<and> w' = (log_event (FileWrite path) (w\<lparr>clock_reads := Suc (clock_reads w)\<rparr>))
                     \<lparr>files := (files w)(path \<mapsto> doc)\<rparr>"
  using assms
  unfolding create_word_document_def datetime_now_def save_document_def
  by (auto simp: bindE_Inr_iff log_event_def split: sum.splits option.splits prod.splits)

lemma invoice_info_text_assembled:
  "invoice_info_text (assemble_document ci info bill_to ship_to items totals) = Some info"
  by (simp add: invoice_info_text_def assemble_document_def header_table_def
      invoice_cell_def plain_run_def)

lemma invoice_info_text_rendered:
  assumes "invoice_document rt ci order_data info = Inr doc"
  shows "invoice_info_text doc = Some info"
  using invoice_document_body [OF assms] invoice_info_text_assembled by auto

lemma printed_due_date_of_info:
  assumes "invoice_info_text doc = Some (h @ [CHR 0x0A] @ ''Vencimiento: '' @ s)"
    and "CHR 0x0A \<notin> set s"
  shows "printed_due_date doc = Some s"
proof -
  have "CHR 0x0A \<notin> set (''Vencimiento: '' @ s)" using assms(2) by simp
  then have "last_line (h @ [CHR 0x0A] @ ''Vencimiento: '' @ s) = ''Vencimiento: '' @ s"
    by (rule last_line_after_newline)
  with assms(1) show ?thesis by (simp add: printed_due_date_def)
qed

lemma printed_due_date_rendered:
  assumes "create_word_document rt io self order_data filename w = (Inr path, w')"
  shows "\<exists>doc due. files w' path = Some doc
           \<and> add_days (clock io (clock_reads w)) 30 = Inr due
           \<and> printed_due_date doc = Some (strftime_dmY due)"
proof -
  from create_word_document_success [OF assms] obtain hd_text due doc where
    h: "invoice_info_head rt order_data = Inr hd_text"
    and d: "add_days (clock io (clock_reads w)) 30 = Inr due"
    and doc: "invoice_document rt (company self) order_data
                (hd_text @ ''Vencimiento: '' @ strftime_dmY due) = Inr doc"
    and w': "w' = (log_event (FileWrite path) (w\<lparr>clock_reads := Suc (clock_reads w)\<rparr>))
                     \<lparr>files := (files w)(path \<mapsto> doc)\<rparr>"
    by blast
  from invoice_info_head_newline [OF h] obtain h0 where h0: "hd_text = h0 @ [CHR 0x0A]" ..
  from invoice_info_text_rendered [OF doc] h0
  have "invoice_info_text doc = Some (h0 @ [CHR 0x0A] @ ''Vencimiento: '' @ strftime_dmY due)"
    by simp
  then have "printed_due_date doc = Some (strftime_dmY due)"
    using strftime_no_newline by (rule printed_due_date_of_info)
  moreover have "files w' path = Some doc" using w' by simp
  ultimately show ?thesis using d by blast
qed

subsection \<open>The example order, evaluated\<close>

lemma head_1001:
  "invoice_info_head ref_runtime order_1001
     = Inr (''No. Orden: #1001'' @ [CHR 0x0A] @ ''Fecha: 05/03/2024'' @ [CHR 0x0A])"
  by (simp add: invoice_info_head_def order_1001_def ref_runtime_def replace_Z_created
      parse_created strftime_created)

lemma due_june_first:
  "add_days june_first 30 = Inr (june_first\<lparr>year := 2024, month := 7, day := 1\<rparr>)"
  by (simp add: add_days_def june_first_def ymd2ord_def days_before_year_def
      days_before_month_def DAYS_BEFORE_MONTH_def DAYS_IN_MONTH_def is_leap_def
      MAXORDINAL_def ord2ymd_def Let_def)

lemma strftime_july_first:
  "strftime_dmY (june_first\<lparr>year := 2024, month := 7, day := 1\<rparr>) = ''01/07/2024''"
  by (simp add: strftime_dmY_def zfill_def str_nat.simps june_first_def)

lemma spec_due_1001: "spec_due_date ref_runtime order_1001 = Some ''04/04/2024''"
  by (simp add: spec_due_date_def order_1001_def ref_runtime_def replace_Z_created
      parse_created add_days_def ymd2ord_def days_before_year_def
      days_before_month_def DAYS_BEFORE_MONTH_def DAYS_IN_MONTH_def is_leap_def
      MAXORDINAL_def ord2ymd_def Let_def strftime_dmY_def zfill_def str_nat.simps)

lemma bill_1001:
  "bill_to_cell ref_runtime order_1001
     = Inr [\<lparr>runs = [bold_run ''FACTURAR A:''], alignment = None\<rparr>,
            text_paragraph ''Ana Rojas'', text_paragraph ''ana@example.com'']"
  by (simp add: bill_to_cell_def order_1001_def docx_add_paragraph_def str_paragraph_def)

lemma ship_1001:
  "ship_to_cell ref_runtime order_1001
     = Inr [\<lparr>runs = [bold_run ''ENVIAR A:''], alignment = None\<rparr>,
            str_paragraph no_shipping_text]"
  by (simp add: ship_to_cell_def order_1001_def)

lemma float_5000: "ref_float_of_str ''5000.00'' = Some (Finite 5000)"
  by (simp add: ref_float_of_str_def digit_val_def Let_def)

lemma float_10000: "ref_float_of_str ''10000.00'' = Some (Finite 10000)"
  by (simp add: ref_float_of_str_def digit_val_def Let_def)

lemma float_20000: "ref_float_of_str ''20000.00'' = Some (Finite 20000)"
  by (simp add: ref_float_of_str_def digit_val_def Let_def)

lemma float_0: "ref_float_of_str ''0.00'' = Some (Finite 0)"
  by (simp add: ref_float_of_str_def digit_val_def Let_def)

lemma currency_5000: "format_currency (Finite 5000) = Inr ''$5,000 COP''"
  by (simp add: format_currency_def py_format_float_def group_thousands_def
      round_half_even_def str_nat.simps)

lemma currency_10000: "format_currency (Finite 10000) = Inr ''$10,000 COP''"
  by (simp add: format_currency_def py_format_float_def group_thousands_def
      round_half_even_def str_nat.simps)

lemma currency_20000: "format_currency (Finite 20000) = Inr ''$20,000 COP''"
  by (simp add: format_currency_def py_format_float_def group_thousands_def
      round_half_even_def str_nat.simps)

lemma items_1001:
  "items_table ref_runtime order_1001
     = Inr ((add_table 5)\<lparr>table_style := Some ''Table Grid'',
              table_rows :=
                [items_header_row,
                 [[text_paragraph ''Camiseta''], [text_paragraph ''N/A''],
                  [text_paragraph ''2''], [text_paragraph ''$5,000 COP''],
                  [text_paragraph ''$10,000 COP'']],
                 [[text_paragraph (''Gorra'' @ [CHR 0x0A] @ ''Azul'')],
                  [text_paragraph ''GOR-01''],
                  [text_paragraph ''1''], [text_paragraph ''$10,000 COP''],
                  [text_paragraph ''$10,000 COP'']]]\<rparr>)"
  by (simp add: items_table_def order_1001_def item_row_def docx_set_cell_text_def
      ref_runtime_def float_5000 float_10000 currency_5000 currency_10000
      float_of_int_def str_int_def str_nat.simps)

lemma totals_1001:
  "totals_cell ref_runtime order_1001
     = Inr [aligned RIGHT empty_paragraph,
            aligned RIGHT (text_paragraph ''Subtotal: $20,000 COP''),
            \<lparr>runs = [styled_run ''TOTAL: $20,000 COP'' 14], alignment = Some RIGHT\<rparr>]"
  by (simp add: totals_cell_def order_subtotal_def order_taxes_def order_shipping_def
      order_total_def order_1001_def ref_runtime_def float_20000 float_0 currency_20000
      float_of_int_def str_paragraph_def)

lemma create_word_document_ok:
  assumes "invoice_info_head rt order_data = Inr hd_text"
    and "add_days (clock io (clock_reads w)) 30 = Inr due"
    and "invoice_document rt (company self) order_data
           (hd_text @ ''Vencimiento: '' @ strftime_dmY due) = Inr doc"
    and "write_error io (filename @ ''.docx'') = None"
  shows "create_word_document rt io self order_data filename w
         = (Inr (filename @ ''.docx''),
            (log_event (FileWrite (filename @ ''.docx''))
               (w\<lparr>clock_reads := Suc (clock_reads w)\<rparr>))
              \<lparr>files := (files w)(filename @ ''.docx'' \<mapsto> doc)\<rparr>)"
  using assms
  by (simp add: create_word_document_def datetime_now_def save_document_def log_event_def)

lemma invoice_document_1001:
  "invoice_document ref_runtime (company self) order_1001 info
     = Inr (assemble_document (company self) info
         [\<lparr>runs = [bold_run ''FACTURAR A:''], alignment = None\<rparr>,
          text_paragraph ''Ana Rojas'', text_paragraph ''ana@example.com'']
         [\<lparr>runs = [bold_run ''ENVIAR A:''], alignment = None\<rparr>,
          str_paragraph no_shipping_text]
         ((add_table 5)\<lparr>table_style := Some ''Table Grid'',
              table_rows :=
                [items_header_row,
                 [[text_paragraph ''Camiseta''], [text_paragraph ''N/A''],
                  [text_paragraph ''2''], [text_paragraph ''$5,000 COP''],
                  [text_paragraph ''$10,000 COP'']],
                 [[text_paragraph (''Gorra'' @ [CHR 0x0A] @ ''Azul'')],
                  [text_paragraph ''GOR-01''],
                  [text_paragraph ''1''], [text_paragraph ''$10,000 COP''],
                  [text_paragraph ''$10,000 COP'']]]\<rparr>)
         [aligned RIGHT empty_paragraph,
          aligned RIGHT (text_paragraph ''Subtotal: $20,000 COP''),
          \<lparr>runs = [styled_run ''TOTAL: $20,000 COP'' 14], alignment = Some RIGHT\<rparr>])"
  by (simp only: invoice_document_def bill_1001 ship_1001 items_1001 totals_1001 bindE.simps)

lemma render_1001:
  assumes "clock io (clock_reads w) = june_first"
    and "write_error io (filename @ ''.docx'') = None"
  shows "create_word_document ref_runtime io app_generator order_1001 filename w
         = (Inr (filename @ ''.docx''),
            (log_event (FileWrite (filename @ ''.docx''))
               (w\<lparr>clock_reads := Suc (clock_reads w)\<rparr>))
              \<lparr>files := (files w)(filename @ ''.docx'' \<mapsto> document_1001)\<rparr>)"
proof (rule create_word_document_ok [OF head_1001])
  show "add_days (clock io (clock_reads w)) 30
        = Inr (june_first\<lparr>year := 2024, month := 7, day := 1\<rparr>)"
    by (simp only: assms(1) due_june_first)
  show "invoice_document ref_runtime (company app_generator) order_1001
         ((''No. Orden: #1001'' @ [CHR 0x0A] @ ''Fecha: 05/03/2024'' @ [CHR 0x0A])
            @ ''Vencimiento: '' @ strftime_dmY (june_first\<lparr>year := 2024, month := 7, day := 1\<rparr>))
        = Inr document_1001"
    unfolding strftime_july_first by (simp add: invoice_document_1001 document_1001_def)
  show "write_error io (filename @ ''.docx'') = None" by (rule assms(2))
qed

lemma render_1001_shop:
  "create_word_document ref_runtime shop_io app_generator order_1001 ''Factura'' empty_world
     = (Inr ''Factura.docx'',
        \<lparr>files = [''Factura.docx'' \<mapsto> document_1001], clock_reads = 1,
         events = [FileWrite ''Factura.docx'']\<rparr>)"
proof -
  have "clock shop_io (clock_reads empty_world) = june_first"
    by (simp add: shop_io_def)
  moreover have "write_error shop_io (''Factura'' @ ''.docx'') = None"
    by (simp add: shop_io_def)
  ultimately show ?thesis
    using render_1001 [of shop_io empty_world "''Factura''"]
    by (simp add: log_event_def empty_world_def)
qed

lemma printed_due_date_1001: "printed_due_date document_1001 = Some ''01/07/2024''"
  by (simp add: document_1001_def invoice_info_text_assembled printed_due_date_def
      last_line_def)

subsection \<open>Due date\<close>

text \<open>
  C1, as amended. For every order that \<^verbatim>\<open>create_word_document\<close> renders, the due
  date printed in the header's right column is the date of rendering, that is the
  reading of \<^verbatim>\<open>datetime.now()\<close>, plus 30 calendar days.
\<close>

theorem due_date_is_render_date_plus_30:
  assumes "create_word_document rt io self order_data filename w = (Inr path, w')"
  shows "\<exists>doc due. files w' path = Some doc
           \<and> add_days (clock io (clock_reads w)) 30 = Inr due
           \<and> printed_due_date doc = Some (strftime_dmY due)"
  using assms by (rule printed_due_date_rendered)

theorem due_date_is_render_date_plus_30_witness:
  "create_word_document ref_runtime shop_io app_generator order_1001 ''Factura'' empty_world
     = (Inr ''Factura.docx'',
        \<lparr>files = [''Factura.docx'' \<mapsto> document_1001], clock_reads = 1,
         events = [FileWrite ''Factura.docx'']\<rparr>)
   \<and> add_days (clock shop_io (clock_reads empty_world)) 30
       = Inr (june_first\<lparr>year := 2024, month := 7, day := 1\<rparr>)
   \<and> printed_due_date document_1001
       = Some (strftime_dmY (june_first\<lparr>year := 2024, month := 7, day := 1\<rparr>))"
proof -
  have d: "add_days (clock shop_io (clock_reads empty_world)) 30
       = Inr (june_first\<lparr>year := 2024, month := 7, day := 1\<rparr>)"
    by (simp add: shop_io_def due_june_first)
  from due_date_is_render_date_plus_30 [OF render_1001_shop]
  obtain doc due where
    "[''Factura.docx'' \<mapsto> document_1001] ''Factura.docx'' = Some doc"
    "add_days (clock shop_io (clock_reads empty_world)) 30 = Inr due"
    "printed_due_date doc = Some (strftime_dmY due)"
    by auto
  with d have "printed_due_date document_1001
       = Some (strftime_dmY (june_first\<lparr>year := 2024, month := 7, day := 1\<rparr>))"
    by simp
  with d render_1001_shop show ?thesis by simp
qed

theorem due_date_creation_plus_30_counterexample:
  "map_option printed_due_date
     (files (snd (create_word_document ref_runtime shop_io app_generator order_1001
                    ''Factura'' empty_world)) ''Factura.docx'')
     = Some (Some ''01/07/2024'')
   \<and> spec_due_date ref_runtime order_1001 = Some ''04/04/2024''
   \<and> map_option printed_due_date
     (files (snd (create_word_document ref_runtime shop_io app_generator order_1001
                    ''Factura'' empty_world)) ''Factura.docx'')
     \<noteq> Some (spec_due_date ref_runtime order_1001)"
  by (simp add: render_1001_shop printed_due_date_1001 spec_due_1001)

lemma rendered_document:
  assumes "create_word_document rt io self order_data filename w = (Inr path, w')"
  shows "\<exists>info bill_to ship_to items totals.
           bill_to_cell rt order_data = Inr bill_to \<and> ship_to_cell rt order_data = Inr ship_to
           \<and> items_table rt order_data = Inr items \<and> totals_cell rt order_data = Inr totals
           \<and> files w' path
               = Some (assemble_document (company self) info bill_to ship_to items totals)"
proof -
  from create_word_document_success [OF assms] obtain hd_text due doc where
    doc: "invoice_document rt (company self) order_data
                (hd_text @ ''Vencimiento: '' @ strftime_dmY due) = Inr doc"
    and w': "w' = (log_event (FileWrite path) (w\<lparr>clock_reads := Suc (clock_reads w)\<rparr>))
                     \<lparr>files := (files w)(path \<mapsto> doc)\<rparr>"
    by auto
  have "files w' path = Some doc" using w' by simp
  with invoice_document_body [OF doc] show ?thesis by auto
qed

lemma totals_block_assembled:
  "totals_block (assemble_document ci info bill_to ship_to items totals) = Some totals"
  by (simp add: totals_block_def assemble_document_def totals_table_def)

lemma item_rows_assembled:
  "table_rows items = h # rs \<Longrightarrow>
   item_rows (assemble_document ci info bill_to ship_to items totals) = Some rs"
  by (simp add: item_rows_def assemble_document_def)

lemma has_line_append: "has_line l (xs @ ys) \<longleftrightarrow> has_line l xs \<or> has_line l ys"
  by (auto simp: has_line_def)

lemma has_line_Nil: "\<not> has_line l []"
  by (simp add: has_line_def)

lemma totals_cell_lines:
  assumes "totals_cell rt order_data = Inr c"
  shows "\<exists>subtotal taxes shipping total total_text.
           order_subtotal rt order_data = Inr subtotal
           \<and> order_taxes rt order_data = Inr taxes
           \<and> order_shipping rt order_data = Inr shipping
           \<and> order_total rt order_data = Inr total
           \<and> format_currency total = Inr total_text
           \<and> has_line ''Subtotal: '' c
           \<and> (has_line shipping_label c \<longleftrightarrow> float_gt_zero shipping)
           \<and> (has_line ''Impuestos: '' c \<longleftrightarrow> float_gt_zero taxes)
           \<and> last c = \<lparr>runs = [styled_run (''TOTAL: '' @ total_text) 14],
                        alignment = Some RIGHT\<rparr>"
proof -
  from assms obtain subtotal taxes shipping total subtotal_text shipping_pars taxes_pars
    total_text where
    a: "order_subtotal rt order_data = Inr subtotal"
       "order_taxes rt order_data = Inr taxes"
       "order_shipping rt order_data = Inr shipping"
       "order_total rt order_data = Inr total"
       "format_currency subtotal = Inr subtotal_text"
       "format_currency total = Inr total_text"
    and sp: "(if float_gt_zero shipping
            then bindE (format_currency shipping) (\<lambda>s.
                   Inr [aligned RIGHT (str_paragraph (shipping_label @ s))])
            else Inr []) = Inr shipping_pars"
    and tp: "(if float_gt_zero taxes
            then bindE (format_currency taxes) (\<lambda>s.
                   Inr [aligned RIGHT (str_paragraph (''Impuestos: '' @ s))])
            else Inr []) = Inr taxes_pars"
    and c: "c = [aligned RIGHT empty_paragraph,
             aligned RIGHT (str_paragraph (''Subtotal: '' @ subtotal_text))]
            @ shipping_pars @ taxes_pars @
            [\<lparr>runs = [styled_run (''TOTAL: '' @ total_text) 14],
              alignment = Some RIGHT\<rparr>]"
    unfolding totals_cell_def by (auto simp: bindE_Inr_iff)
  have s1: "has_line shipping_label shipping_pars \<longleftrightarrow> float_gt_zero shipping"
    and s2: "\<not> has_line ''Impuestos: '' shipping_pars"
    using sp
    by (auto simp: bindE_Inr_iff has_line_def aligned_def str_paragraph_def
        text_paragraph_def plain_run_def shipping_label_def i_acute_def split: if_splits)
  have t1: "has_line ''Impuestos: '' taxes_pars \<longleftrightarrow> float_gt_zero taxes"
    and t2: "\<not> has_line shipping_label taxes_pars"
    using tp
    by (auto simp: bindE_Inr_iff has_line_def aligned_def str_paragraph_def
        text_paragraph_def plain_run_def shipping_label_def i_acute_def split: if_splits)
  have h1: "has_line ''Subtotal: ''
              [aligned RIGHT empty_paragraph,
               aligned RIGHT (str_paragraph (''Subtotal: '' @ subtotal_text))]"
    and h2: "\<not> has_line shipping_label
              [aligned RIGHT empty_paragraph,
               aligned RIGHT (str_paragraph (''Subtotal: '' @ subtotal_text))]"
    and h3: "\<not> has_line ''Impuestos: ''
              [aligned RIGHT empty_paragraph,
               aligned RIGHT (str_paragraph (''Subtotal: '' @ subtotal_text))]"
    by (simp_all add: has_line_def aligned_def str_paragraph_def empty_paragraph_def
        text_paragraph_def plain_run_def shipping_label_def i_acute_def)
  have l1: "\<not> has_line shipping_label
              [\<lparr>runs = [styled_run (''TOTAL: '' @ total_text) 14],
                alignment = Some RIGHT\<rparr>]"
    and l2: "\<not> has_line ''Impuestos: ''
              [\<lparr>runs = [styled_run (''TOTAL: '' @ total_text) 14],
                alignment = Some RIGHT\<rparr>]"
    by (simp_all add: has_line_def styled_run_def shipping_label_def i_acute_def)
  have "has_line ''Subtotal: '' c"
    unfolding c has_line_append using h1 by blast
  moreover have "has_line shipping_label c \<longleftrightarrow> float_gt_zero shipping"
    unfolding c has_line_append using h2 s1 t2 l1 by blast
  moreover have "has_line ''Impuestos: '' c \<longleftrightarrow> float_gt_zero taxes"
    unfolding c has_line_append using h3 s2 t1 l2 by blast
  moreover have "last c = \<lparr>runs = [styled_run (''TOTAL: '' @ total_text) 14],
                        alignment = Some RIGHT\<rparr>"
    unfolding c by simp
  ultimately show ?thesis using a by blast
qed

lemma shipping_missing_is_zero:
  "(map_of kvs ''total_shipping_price_set'' = None
      \<longrightarrow> order_shipping rt (JObj kvs) = Inr (Finite 0))
   \<and> (map_of kvs ''total_shipping_price_set'' = Some (JObj ps)
        \<and> map_of ps ''shop_money'' = None
      \<longrightarrow> order_shipping rt (JObj kvs) = Inr (Finite 0))
   \<and> (map_of kvs ''total_shipping_price_set'' = Some (JObj ps)
        \<and> map_of ps ''shop_money'' = Some (JObj ms) \<and> map_of ms ''amount'' = None
      \<longrightarrow> order_shipping rt (JObj kvs) = Inr (Finite 0))"
  by (simp add: order_shipping_def float_of_int_def)

subsection \<open>Totals block\<close>

text \<open>
  C7. In every rendered order the totals cell has a \<^verbatim>\<open>Subtotal\<close> line, ends with the
  bold 14 pt \<^verbatim>\<open>TOTAL\<close> line formatted from the order's own \<^verbatim>\<open>total_price\<close>, has a
  shipping line exactly when the shipping amount is greater than 0 and a tax line exactly
  when the tax amount is greater than 0. When the price set, its shop money or its
  amount is missing from the order, the shipping amount is 0.
\<close>

theorem totals_block_lines:
  "(create_word_document rt io self order_data filename w = (Inr path, w') \<longrightarrow>
      (\<exists>doc c subtotal taxes shipping total total_text.
           files w' path = Some doc \<and> totals_block doc = Some c
           \<and> order_subtotal rt order_data = Inr subtotal
           \<and> order_taxes rt order_data = Inr taxes
           \<and> order_shipping rt order_data = Inr shipping
           \<and> order_total rt order_data = Inr total
           \<and> format_currency total = Inr total_text
           \<and> has_line ''Subtotal: '' c
           \<and> (has_line shipping_label c \<longleftrightarrow> float_gt_zero shipping)
           \<and> (has_line ''Impuestos: '' c \<longleftrightarrow> float_gt_zero taxes)
           \<and> last c = \<lparr>runs = [styled_run (''TOTAL: '' @ total_text) 14],
                        alignment = Some RIGHT\<rparr>))
   \<and> (map_of kvs1 ''total_shipping_price_set'' = None
      \<longrightarrow> order_shipping rt (JObj kvs1) = Inr (Finite 0))
   \<and> (map_of kvs2 ''total_shipping_price_set'' = Some (JObj ps2)
        \<and> map_of ps2 ''shop_money'' = None
      \<longrightarrow> order_shipping rt (JObj kvs2) = Inr (Finite 0))
   \<and> (map_of kvs3 ''total_shipping_price_set'' = Some (JObj ps3)
        \<and> map_of ps3 ''shop_money'' = Some (JObj ms3) \<and> map_of ms3 ''amount'' = None
      \<longrightarrow> order_shipping rt (JObj kvs3) = Inr (Finite 0))"
proof (intro conjI impI)
  assume r: "create_word_document rt io self order_data filename w = (Inr path, w')"
  from rendered_document [OF r] obtain info bill_to ship_to items totals where
    t: "totals_cell rt order_data = Inr totals"
    and f: "files w' path
               = Some (assemble_document (company self) info bill_to ship_to items totals)"
    by auto
  from totals_cell_lines [OF t] f totals_block_assembled
  show "\<exists>doc c subtotal taxes shipping total total_text.
           files w' path = Some doc \<and> totals_block doc = Some c
           \<and> order_subtotal rt order_data = Inr subtotal
           \<and> order_taxes rt order_data = Inr taxes
           \<and> order_shipping rt order_data = Inr shipping
           \<and> order_total rt order_data = Inr total
           \<and> format_currency total = Inr total_text
           \<and> has_line ''Subtotal: '' c
           \<and> (has_line shipping_label c \<longleftrightarrow> float_gt_zero shipping)
           \<and> (has_line ''Impuestos: '' c \<longleftrightarrow> float_gt_zero taxes)
           \<and> last c = \<lparr>runs = [styled_run (''TOTAL: '' @ total_text) 14],
                        alignment = Some RIGHT\<rparr>"
    by (elim exE conjE) (intro exI conjI, assumption+)
qed (use shipping_missing_is_zero [where kvs=kvs1 and rt=rt]
      shipping_missing_is_zero [where kvs=kvs2 and ps=ps2 and rt=rt]
      shipping_missing_is_zero [where kvs=kvs3 and ps=ps3 and rt=rt and ms=ms3] in simp_all)


lemma mapE_Inr: "mapE f xs = Inr ys \<Longrightarrow> list_all2 (\<lambda>x y. f x = Inr y) xs ys"
  by (induction xs arbitrary: ys) (auto simp: bindE_Inr_iff)

lemma item_row_sku:
  assumes "item_row rt item = Inr cells"
  shows "\<exists>kvs. item = JObj kvs
           \<and> (map_of kvs ''sku'' = None \<longrightarrow> cells ! 1 = [text_paragraph ''N/A''])
           \<and> (\<forall>s. map_of kvs ''sku'' = Some (JStr s) \<longrightarrow> cells ! 1 = [text_paragraph s])
           \<and> (\<forall>v. map_of kvs ''sku'' = Some v \<longrightarrow>
                 (\<exists>s. docx_run_text rt v = Inr s \<and> cells ! 1 = [text_paragraph s]))"
proof (cases item)
  case (JObj kvs)
  with assms show ?thesis
    unfolding item_row_def docx_set_cell_text_def
    by (auto simp: bindE_Inr_iff split: option.splits)
qed (use assms in \<open>simp_all add: item_row_def\<close>)

lemma items_table_sku:
  assumes "items_table rt order_data = Inr t"
  shows "\<exists>line_items items rows.
           py_getitem order_data ''line_items'' = Inr line_items
           \<and> py_iter line_items = Inr items
           \<and> table_rows t = items_header_row # rows
           \<and> length rows = length items
           \<and> (\<forall>i < length items. \<exists>kvs. items ! i = JObj kvs
                \<and> (map_of kvs ''sku'' = None \<longrightarrow> rows ! i ! 1 = [text_paragraph ''N/A''])
                \<and> (\<forall>s. map_of kvs ''sku'' = Some (JStr s)
                       \<longrightarrow> rows ! i ! 1 = [text_paragraph s])
                \<and> (\<forall>v. map_of kvs ''sku'' = Some v \<longrightarrow>
                       (\<exists>s. docx_run_text rt v = Inr s \<and> rows ! i ! 1 = [text_paragraph s])))"
proof -
  from assms obtain line_items items rows where
    a: "py_getitem order_data ''line_items'' = Inr line_items"
       "py_iter line_items = Inr items"
    and m: "mapE (item_row rt) items = Inr rows"
    and t: "t = (add_table 5)\<lparr>table_style := Some ''Table Grid'',
                   table_rows := items_header_row # rows\<rparr>"
    unfolding items_table_def by (auto simp: bindE_Inr_iff)
  from mapE_Inr [OF m] have l: "length rows = length items"
    and n: "\<And>i. i < length items \<Longrightarrow> item_row rt (items ! i) = Inr (rows ! i)"
    by (auto simp: list_all2_conv_all_nth)
  have "table_rows t = items_header_row # rows" using t by simp
  with a l item_row_sku [OF n] show ?thesis by blast
qed

subsection \<open>SKU column\<close>

text \<open>
  C8. In every rendered order, each line item has its row in the item table, and the
  second cell of that row holds the item's SKU, or \<^verbatim>\<open>N/A\<close> when the item has no
  \<^verbatim>\<open>sku\<close> entry.
\<close>

theorem sku_column:
  assumes "create_word_document rt io self order_data filename w = (Inr path, w')"
  shows "\<exists>doc line_items items rows.
           files w' path = Some doc
           \<and> py_getitem order_data ''line_items'' = Inr line_items
           \<and> py_iter line_items = Inr items
           \<and> item_rows doc = Some rows
           \<and> length rows = length items
           \<and> (\<forall>i < length items. \<exists>kvs. items ! i = JObj kvs
                \<and> (map_of kvs ''sku'' = None \<longrightarrow> rows ! i ! 1 = [text_paragraph ''N/A''])
                \<and> (\<forall>s. map_of kvs ''sku'' = Some (JStr s)
                       \<longrightarrow> rows ! i ! 1 = [text_paragraph s])
                \<and> (\<forall>v. map_of kvs ''sku'' = Some v \<longrightarrow>
                       (\<exists>s. docx_run_text rt v = Inr s \<and> rows ! i ! 1 = [text_paragraph s])))"
proof -
  from rendered_document [OF assms] obtain info bill_to ship_to items totals where
    t: "items_table rt order_data = Inr items"
    and f: "files w' path
               = Some (assemble_document (company self) info bill_to ship_to items totals)"
    by auto
  from items_table_sku [OF t] obtain line_items its rows where
    a: "py_getitem order_data ''line_items'' = Inr line_items"
       "py_iter line_items = Inr its"
       "table_rows items = items_header_row # rows"
       "length rows = length its"
    and s: "\<forall>i < length its. \<exists>kvs. its ! i = JObj kvs
                \<and> (map_of kvs ''sku'' = None \<longrightarrow> rows ! i ! 1 = [text_paragraph ''N/A''])
                \<and> (\<forall>s. map_of kvs ''sku'' = Some (JStr s)
                       \<longrightarrow> rows ! i ! 1 = [text_paragraph s])
                \<and> (\<forall>v. map_of kvs ''sku'' = Some v \<longrightarrow>
                       (\<exists>s. docx_run_text rt v = Inr s \<and> rows ! i ! 1 = [text_paragraph s]))"
    by blast
  have "item_rows (assemble_document (company self) info bill_to ship_to items totals)
        = Some rows"
    using a(3) by (rule item_rows_assembled)
  with f a s show ?thesis by blast
qed

lemma blank_due_date_assembled:
  assumes "CHR 0x0A \<notin> set s"
  shows "blank_due_date
           (assemble_document ci (h @ [CHR 0x0A] @ ''Vencimiento: '' @ s)
              bill_to ship_to items totals)
         = assemble_document ci (h @ [CHR 0x0A] @ ''Vencimiento: '')
              bill_to ship_to items totals"
proof -
  have "CHR 0x0A \<notin> set (''Vencimiento: '' @ s)" using assms by simp
  then have l: "last_line (h @ [CHR 0x0A] @ ''Vencimiento: '' @ s) = ''Vencimiento: '' @ s"
    by (rule last_line_after_newline)
  have "take (length (h @ [CHR 0x0A] @ ''Vencimiento: '' @ s)
               - length (''Vencimiento: '' @ s) + 13)
          (h @ [CHR 0x0A] @ ''Vencimiento: '' @ s)
        = h @ [CHR 0x0A] @ ''Vencimiento: ''"
    by simp
  with l show ?thesis
    by (simp add: blank_due_date_def assemble_document_def header_table_def
        invoice_cell_def plain_run_def)
qed

lemma add_days_same_day:
  assumes "add_days a k = Inr da" and "add_days b k = Inr db"
    and "year a = year b" and "month a = month b" and "day a = day b"
  shows "strftime_dmY da = strftime_dmY db"
  using assms
  by (auto simp: add_days_def Let_def strftime_dmY_def split: if_splits prod.splits)

subsection \<open>Repeatable rendering\<close>

text \<open>
  C9. Two renderings of the same order with the same company profile, at any two clock
  readings and under any file names, give documents that agree once the printed due
  date is erased, and that are equal when the two readings fall on the same calendar
  day.
\<close>

theorem rendering_repeatable:
  assumes "create_word_document rt io1 self1 order_data filename1 w1 = (Inr path1, w1')"
    and "create_word_document rt io2 self2 order_data filename2 w2 = (Inr path2, w2')"
    and "company self1 = company self2"
  shows "\<exists>doc1 doc2.
           files w1' path1 = Some doc1 \<and> files w2' path2 = Some doc2
           \<and> blank_due_date doc1 = blank_due_date doc2
           \<and> (year (clock io1 (clock_reads w1)) = year (clock io2 (clock_reads w2))
              \<and> month (clock io1 (clock_reads w1)) = month (clock io2 (clock_reads w2))
              \<and> day (clock io1 (clock_reads w1)) = day (clock io2 (clock_reads w2))
              \<longrightarrow> doc1 = doc2)"
proof -
  from create_word_document_success [OF assms(1)] obtain hd1 due1 doc1 where
    h1: "invoice_info_head rt order_data = Inr hd1"
    and d1: "add_days (clock io1 (clock_reads w1)) 30 = Inr due1"
    and doc1: "invoice_document rt (company self1) order_data
                (hd1 @ ''Vencimiento: '' @ strftime_dmY due1) = Inr doc1"
    and f1: "w1' = (log_event (FileWrite path1) (w1\<lparr>clock_reads := Suc (clock_reads w1)\<rparr>))
                     \<lparr>files := (files w1)(path1 \<mapsto> doc1)\<rparr>"
    by auto
  from create_word_document_success [OF assms(2)] obtain hd2 due2 doc2 where
    h2: "invoice_info_head rt order_data = Inr hd2"
    and d2: "add_days (clock io2 (clock_reads w2)) 30 = Inr due2"
    and doc2: "invoice_document rt (company self2) order_data
                (hd2 @ ''Vencimiento: '' @ strftime_dmY due2) = Inr doc2"
    and f2: "w2' = (log_event (FileWrite path2) (w2\<lparr>clock_reads := Suc (clock_reads w2)\<rparr>))
                     \<lparr>files := (files w2)(path2 \<mapsto> doc2)\<rparr>"
    by auto
  from h1 h2 have hd: "hd2 = hd1" by simp
  from invoice_info_head_newline [OF h1] obtain h where h: "hd1 = h @ [CHR 0x0A]" ..
  from invoice_document_body [OF doc1] obtain bill_to ship_to items totals where
    c: "bill_to_cell rt order_data = Inr bill_to" "ship_to_cell rt order_data = Inr ship_to"
       "items_table rt order_data = Inr items" "totals_cell rt order_data = Inr totals"
    and e1: "doc1 = assemble_document (company self1)
                      (hd1 @ ''Vencimiento: '' @ strftime_dmY due1)
                      bill_to ship_to items totals"
    by auto
  from invoice_document_body [OF doc2] c hd assms(3)
  have e2: "doc2 = assemble_document (company self1)
                      (hd1 @ ''Vencimiento: '' @ strftime_dmY due2)
                      bill_to ship_to items totals"
    by auto
  have b1: "blank_due_date doc1
            = assemble_document (company self1) (h @ [CHR 0x0A] @ ''Vencimiento: '')
                bill_to ship_to items totals"
    using blank_due_date_assembled [OF strftime_no_newline, of "company self1" h due1]
    by (simp add: e1 h)
  have b2: "blank_due_date doc2
            = assemble_document (company self1) (h @ [CHR 0x0A] @ ''Vencimiento: '')
                bill_to ship_to items totals"
    using blank_due_date_assembled [OF strftime_no_newline, of "company self1" h due2]
    by (simp add: e2 h)
  have same: "year (clock io1 (clock_reads w1)) = year (clock io2 (clock_reads w2))
              \<and> month (clock io1 (clock_reads w1)) = month (clock io2 (clock_reads w2))
              \<and> day (clock io1 (clock_reads w1)) = day (clock io2 (clock_reads w2))
              \<longrightarrow> doc1 = doc2"
    using add_days_same_day [OF d1 d2] by (auto simp: e1 e2)
  have "files w1' path1 = Some doc1" "files w2' path2 = Some doc2"
    using f1 f2 by simp_all
  with b1 b2 same show ?thesis by (intro exI [of _ doc1] exI [of _ doc2]) simp
qed



subsection \<open>The three properties on order 1001\<close>

theorem totals_block_lines_witness:
  "create_word_document ref_runtime shop_io app_generator order_1001 ''Factura'' empty_world
     = (Inr ''Factura.docx'',
        \<lparr>files = [''Factura.docx'' \<mapsto> document_1001], clock_reads = 1,
         events = [FileWrite ''Factura.docx'']\<rparr>)
   \<and> totals_block document_1001
       = Some [aligned RIGHT empty_paragraph,
               aligned RIGHT (text_paragraph ''Subtotal: $20,000 COP''),
               \<lparr>runs = [styled_run ''TOTAL: $20,000 COP'' 14], alignment = Some RIGHT\<rparr>]
   \<and> order_shipping ref_runtime order_1001 = Inr (Finite 0)
   \<and> order_taxes ref_runtime order_1001 = Inr (Finite 0)
   \<and> order_total ref_runtime order_1001 = Inr (Finite 20000)
   \<and> has_line ''Subtotal: ''
        [aligned RIGHT empty_paragraph,
         aligned RIGHT (text_paragraph ''Subtotal: $20,000 COP''),
         \<lparr>runs = [styled_run ''TOTAL: $20,000 COP'' 14], alignment = Some RIGHT\<rparr>]
   \<and> \<not> has_line shipping_label
        [aligned RIGHT empty_paragraph,
         aligned RIGHT (text_paragraph ''Subtotal: $20,000 COP''),
         \<lparr>runs = [styled_run ''TOTAL: $20,000 COP'' 14], alignment = Some RIGHT\<rparr>]
   \<and> \<not> has_line ''Impuestos: ''
        [aligned RIGHT empty_paragraph,
         aligned RIGHT (text_paragraph ''Subtotal: $20,000 COP''),
         \<lparr>runs = [styled_run ''TOTAL: $20,000 COP'' 14], alignment = Some RIGHT\<rparr>]
   \<and> order_shipping ref_runtime (JObj [(''total_shipping_price_set'', JObj [])])
       = Inr (Finite 0)
   \<and> order_shipping ref_runtime
         (JObj [(''total_shipping_price_set'', JObj [(''shop_money'', JObj [])])])
       = Inr (Finite 0)"
proof -
  note T = totals_block_lines
    [where rt = ref_runtime and io = shop_io and self = app_generator
       and order_data = order_1001 and filename = "''Factura''" and w = empty_world
       and path = "''Factura.docx''"
       and w' = "\<lparr>files = [''Factura.docx'' \<mapsto> document_1001], clock_reads = 1,
                   events = [FileWrite ''Factura.docx'']\<rparr>"
       and ?kvs1.0 = "[(''id'', JInt 1001)]"
       and ?kvs2.0 = "[(''total_shipping_price_set'', JObj [])]" and ?ps2.0 = "[]"
       and ?kvs3.0 = "[(''total_shipping_price_set'', JObj [(''shop_money'', JObj [])])]"
       and ?ps3.0 = "[(''shop_money'', JObj [])]" and ?ms3.0 = "[]"]
  have tb: "totals_block document_1001
       = Some [aligned RIGHT empty_paragraph,
               aligned RIGHT (text_paragraph ''Subtotal: $20,000 COP''),
               \<lparr>runs = [styled_run ''TOTAL: $20,000 COP'' 14], alignment = Some RIGHT\<rparr>]"
    by (simp add: document_1001_def totals_block_assembled)
  have sh: "order_shipping ref_runtime order_1001 = Inr (Finite 0)"
    by (simp add: order_shipping_def order_1001_def float_of_int_def)
  have tx: "order_taxes ref_runtime order_1001 = Inr (Finite 0)"
    by (simp add: order_taxes_def order_1001_def ref_runtime_def float_0)
  have tt: "order_total ref_runtime order_1001 = Inr (Finite 20000)"
    by (simp add: order_total_def order_1001_def ref_runtime_def float_20000)
  from T render_1001_shop obtain c shipping taxes where
    "totals_block document_1001 = Some c"
    "order_taxes ref_runtime order_1001 = Inr taxes"
    "order_shipping ref_runtime order_1001 = Inr shipping"
    "has_line ''Subtotal: '' c"
    "has_line shipping_label c \<longleftrightarrow> float_gt_zero shipping"
    "has_line ''Impuestos: '' c \<longleftrightarrow> float_gt_zero taxes"
    by auto
  with tb sh tx have lines:
    "has_line ''Subtotal: ''
        [aligned RIGHT empty_paragraph,
         aligned RIGHT (text_paragraph ''Subtotal: $20,000 COP''),
         \<lparr>runs = [styled_run ''TOTAL: $20,000 COP'' 14], alignment = Some RIGHT\<rparr>]"
    "\<not> has_line shipping_label
        [aligned RIGHT empty_paragraph,
         aligned RIGHT (text_paragraph ''Subtotal: $20,000 COP''),
         \<lparr>runs = [styled_run ''TOTAL: $20,000 COP'' 14], alignment = Some RIGHT\<rparr>]"
    "\<not> has_line ''Impuestos: ''
        [aligned RIGHT empty_paragraph,
         aligned RIGHT (text_paragraph ''Subtotal: $20,000 COP''),
         \<lparr>runs = [styled_run ''TOTAL: $20,000 COP'' 14], alignment = Some RIGHT\<rparr>]"
    by auto
  from T have
    "order_shipping ref_runtime (JObj [(''total_shipping_price_set'', JObj [])])
       = Inr (Finite 0)"
    "order_shipping ref_runtime
         (JObj [(''total_shipping_price_set'', JObj [(''shop_money'', JObj [])])])
       = Inr (Finite 0)"
    by simp_all
  with render_1001_shop tb sh tx tt lines show ?thesis by (intro conjI)
qed

theorem sku_column_witness:
  "create_word_document ref_runtime shop_io app_generator order_1001 ''Factura'' empty_world
     = (Inr ''Factura.docx'',
        \<lparr>files = [''Factura.docx'' \<mapsto> document_1001], clock_reads = 1,
         events = [FileWrite ''Factura.docx'']\<rparr>)
   \<and> (\<exists>rows. item_rows document_1001 = Some rows \<and> length rows = 2
         \<and> rows ! 0 ! 1 = [text_paragraph ''N/A'']
         \<and> rows ! 1 ! 1 = [text_paragraph ''GOR-01''])"
proof -
  from sku_column [OF render_1001_shop] obtain line_items items rows where
    a: "py_getitem order_1001 ''line_items'' = Inr line_items"
       "py_iter line_items = Inr items"
       "item_rows document_1001 = Some rows"
       "length rows = length items"
    and s: "\<forall>i < length items. \<exists>kvs. items ! i = JObj kvs
                \<and> (map_of kvs ''sku'' = None \<longrightarrow> rows ! i ! 1 = [text_paragraph ''N/A''])
                \<and> (\<forall>s. map_of kvs ''sku'' = Some (JStr s)
                       \<longrightarrow> rows ! i ! 1 = [text_paragraph s])
                \<and> (\<forall>v. map_of kvs ''sku'' = Some v \<longrightarrow>
                       (\<exists>s. docx_run_text ref_runtime v = Inr s
                            \<and> rows ! i ! 1 = [text_paragraph s]))"
    by auto
  from a(1,2) have items: "items =
      [JObj [(''title'', JStr ''Camiseta''), (''quantity'', JInt 2),
             (''price'', JStr ''5000.00'')],
       JObj [(''title'', JStr ''Gorra''), (''variant_title'', JStr ''Azul''),
             (''sku'', JStr ''GOR-01''), (''quantity'', JInt 1),
             (''price'', JStr ''10000.00'')]]"
    by (auto simp: order_1001_def)
  from s items have "rows ! 0 ! 1 = [text_paragraph ''N/A'']"
    by (auto dest!: spec [of _ 0])
  moreover from s items have "rows ! 1 ! 1 = [text_paragraph ''GOR-01'']"
    by (auto dest!: spec [of _ 1])
  moreover from a(4) items have "length rows = 2" by simp
  ultimately show ?thesis using render_1001_shop a(3) by blast
qed

theorem rendering_repeatable_witness:
  "create_word_document ref_runtime shop_io app_generator order_1001 ''Factura'' empty_world
     = (Inr ''Factura.docx'',
        \<lparr>files = [''Factura.docx'' \<mapsto> document_1001], clock_reads = 1,
         events = [FileWrite ''Factura.docx'']\<rparr>)
   \<and> create_word_document ref_runtime shop_io app_generator order_1001 ''Copia''
        \<lparr>files = [''Factura.docx'' \<mapsto> document_1001], clock_reads = 1,
         events = [FileWrite ''Factura.docx'']\<rparr>
     = (Inr ''Copia.docx'',
        \<lparr>files = [''Factura.docx'' \<mapsto> document_1001, ''Copia.docx'' \<mapsto> document_1001],
         clock_reads = 2,
         events = [FileWrite ''Factura.docx'', FileWrite ''Copia.docx'']\<rparr>)
   \<and> company app_generator = company app_generator
   \<and> day (clock shop_io 0) = day (clock shop_io 1)
   \<and> blank_due_date document_1001 = blank_due_date document_1001"
proof -
  have second: "create_word_document ref_runtime shop_io app_generator order_1001 ''Copia''
        \<lparr>files = [''Factura.docx'' \<mapsto> document_1001], clock_reads = 1,
         events = [FileWrite ''Factura.docx'']\<rparr>
     = (Inr ''Copia.docx'',
        \<lparr>files = [''Factura.docx'' \<mapsto> document_1001, ''Copia.docx'' \<mapsto> document_1001],
         clock_reads = 2,
         events = [FileWrite ''Factura.docx'', FileWrite ''Copia.docx'']\<rparr>)"
  proof -
    have "clock shop_io (clock_reads \<lparr>files = [''Factura.docx'' \<mapsto> document_1001],
            clock_reads = 1, events = [FileWrite ''Factura.docx'']\<rparr>) = june_first"
      by (simp add: shop_io_def)
    moreover have "write_error shop_io (''Copia'' @ ''.docx'') = None"
      by (simp add: shop_io_def)
    ultimately show ?thesis
      using render_1001 [of shop_io "\<lparr>files = [''Factura.docx'' \<mapsto> document_1001],
            clock_reads = 1, events = [FileWrite ''Factura.docx'']\<rparr>" "''Copia''"]
      by (simp add: log_event_def)
  qed
  from rendering_repeatable [OF render_1001_shop second refl]
  obtain doc1 doc2 where
    "[''Factura.docx'' \<mapsto> document_1001] ''Factura.docx'' = Some doc1"
    "[''Factura.docx'' \<mapsto> document_1001, ''Copia.docx'' \<mapsto> document_1001] ''Copia.docx''
       = Some doc2"
    "blank_due_date doc1 = blank_due_date doc2"
    by auto
  then have "blank_due_date document_1001 = blank_due_date document_1001" by simp
  moreover have "day (clock shop_io 0) = day (clock shop_io 1)" by (simp add: shop_io_def)
  ultimately show ?thesis using render_1001_shop second by simp
qed

subsection \<open>Orchestrator\<close>

lemma get_shopify_order_world:
  "get_shopify_order io self order_id w = (r, w1) \<Longrightarrow>
   w1 = log_event (HttpGet (order_url self order_id)) w"
  by (auto simp: get_shopify_order_def)

text \<open>
  C3. \<^verbatim>\<open>generate_invoice\<close> always returns a result. Whatever the fetch, the lookup of
  the order number, the rendering, the upload or the removal of the local file raises
  becomes the failure result carrying \<^verbatim>\<open>str(e)\<close>; when nothing is raised the result
  is the success form with the order number, the local path (absent when
  \<^verbatim>\<open>save_local\<close> is false) and, after an upload, the cloud information. The cases
  below are exhaustive.
\<close>

theorem generate_invoice_never_raises:
  "((get_shopify_order io self order_id w = (Inl e, w1) \<longrightarrow>
      generate_invoice rt io self order_id save_local upload_to_cloud w
          = (Failure (str_exn e), self, w1))
    \<and> (get_shopify_order io self order_id w = (Inr order_data, w1) \<longrightarrow>
      ((py_getitem order_data ''order_number'' = Inl e \<longrightarrow>
          generate_invoice rt io self order_id save_local upload_to_cloud w
              = (Failure (str_exn e), self, w1))
        \<and> (py_getitem order_data ''order_number'' = Inr order_number
            \<and> filename = invoice_filename rt io order_number
                (clock io (clock_reads w1)) \<longrightarrow>
          ((create_word_document rt io self order_data filename
              (w1\<lparr>clock_reads := Suc (clock_reads w1)\<rparr>)
              = (Inl e, w3) \<longrightarrow>
              generate_invoice rt io self order_id save_local upload_to_cloud w
                  = (Failure (str_exn e), self, w3))
            \<and> (create_word_document rt io self order_data filename
                (w1\<lparr>clock_reads := Suc (clock_reads w1)\<rparr>)
                = (Inr path, w3) \<longrightarrow>
              ((\<not> (upload_to_cloud \<and> all_office_config self) \<longrightarrow>
                  generate_invoice rt io self order_id save_local upload_to_cloud w
                      = (Success order_number (if save_local then Some path else None) None,
                         self, w3))
                \<and> (upload_to_cloud \<and> all_office_config self \<longrightarrow>
                  ((upload_to_onedrive rt io self path filename w3
                      = (Inl e, self1, w4) \<longrightarrow>
                      generate_invoice rt io self order_id save_local upload_to_cloud w
                          = (Failure (str_exn e), self1, w4))
                    \<and> (upload_to_onedrive rt io self path filename w3
                        = (Inr info, self1, w4) \<longrightarrow>
                      ((save_local \<longrightarrow>
                          generate_invoice rt io self order_id save_local upload_to_cloud w
                              = (Success order_number (Some path) (Some info), self1, w4))
                        \<and> (\<not> save_local \<and> os_remove io path w4
                            = (Inl e, w5) \<longrightarrow>
                          generate_invoice rt io self order_id save_local upload_to_cloud w
                              = (Failure (str_exn e), self1, w5))
                        \<and> (\<not> save_local \<and> os_remove io path w4
                            = (Inr (), w5) \<longrightarrow>
                          generate_invoice rt io self order_id save_local upload_to_cloud w
                              = (Success order_number None (Some info), self1, w5)))))))))))))"
  by (simp add: generate_invoice_def generate_invoice_body_def datetime_now_def)

text \<open>
  C4. When fetching the order fails, \<^verbatim>\<open>generate_invoice\<close> returns the failure result
  with the message of the exception; the files are unchanged, the clock has not been
  read, and the request is the only thing that has happened.
\<close>

theorem fetch_failure_no_document:
  assumes "get_shopify_order io self order_id w = (Inl e, w1)"
  shows "generate_invoice rt io self order_id save_local upload_to_cloud w
           = (Failure (str_exn e), self, w1)
         \<and> files w1 = files w \<and> clock_reads w1 = clock_reads w
         \<and> events w1 = events w @ [HttpGet (order_url self order_id)]"
proof -
  from get_shopify_order_world [OF assms]
  have "w1 = log_event (HttpGet (order_url self order_id)) w" .
  then have "files w1 = files w \<and> clock_reads w1 = clock_reads w
         \<and> events w1 = events w @ [HttpGet (order_url self order_id)]"
    by (simp add: log_event_def)
  moreover have "generate_invoice rt io self order_id save_local upload_to_cloud w
           = (Failure (str_exn e), self, w1)"
    using assms by (simp add: generate_invoice_def generate_invoice_body_def)
  ultimately show ?thesis by simp
qed

lemma generate_invoice_no_upload:
  assumes "generate_invoice rt io self order_id save_local upload_to_cloud w
             = (Success order_number lp ci, self', w')"
    and "\<not> (upload_to_cloud \<and> all_office_config self)"
  shows "\<exists>order_data w1 path.
           get_shopify_order io self order_id w = (Inr order_data, w1)
           \<and> py_getitem order_data ''order_number'' = Inr order_number
           \<and> create_word_document rt io self order_data
                (invoice_filename rt io order_number (clock io (clock_reads w1)))
                (w1\<lparr>clock_reads := Suc (clock_reads w1)\<rparr>) = (Inr path, w')
           \<and> lp = (if save_local then Some path else None) \<and> ci = None \<and> self' = self"
  using assms
  by (auto simp: generate_invoice_def generate_invoice_body_def datetime_now_def Let_def
      split: prod.splits sum.splits if_splits)

text \<open>
  C10. A successful call with \<^verbatim>\<open>save_local\<close> false in which the upload is skipped
  returns no local path and no cloud information, though the rendered file is on disk
  and the call has made no attempt to remove it.
\<close>

theorem unsaved_file_left_on_disk:
  assumes "generate_invoice rt io self order_id False upload_to_cloud w
             = (Success order_number lp ci, self', w')"
    and "\<not> (upload_to_cloud \<and> all_office_config self)"
  shows "lp = None \<and> ci = None
         \<and> (\<exists>path doc. files w' path = Some doc
               \<and> events w' = events w @ [HttpGet (order_url self order_id), FileWrite path])"
proof -
  from generate_invoice_no_upload [OF assms] obtain order_data w1 path where
    g: "get_shopify_order io self order_id w = (Inr order_data, w1)"
    and c: "create_word_document rt io self order_data
                (invoice_filename rt io order_number (clock io (clock_reads w1)))
                (w1\<lparr>clock_reads := Suc (clock_reads w1)\<rparr>) = (Inr path, w')"
    and l: "lp = None" "ci = None"
    by auto
  from get_shopify_order_world [OF g]
  have w1: "events w1 = events w @ [HttpGet (order_url self order_id)]"
    by (simp add: log_event_def)
  from create_word_document_success [OF c] obtain doc where
    "w' = (log_event (FileWrite path)
             (w1\<lparr>clock_reads := Suc (clock_reads w1)\<rparr>
                \<lparr>clock_reads := Suc (clock_reads (w1\<lparr>clock_reads := Suc (clock_reads w1)\<rparr>))\<rparr>))
          \<lparr>files := (files (w1\<lparr>clock_reads := Suc (clock_reads w1)\<rparr>))(path \<mapsto> doc)\<rparr>"
    by auto
  then have "files w' path = Some doc"
    and "events w' = events w @ [HttpGet (order_url self order_id), FileWrite path]"
    using w1 by (simp_all add: log_event_def)
  with l show ?thesis by blast
qed



lemma render_1001_for:
  assumes "company self = company app_generator"
    and "clock io (clock_reads w) = june_first"
    and "write_error io (filename @ ''.docx'') = None"
  shows "create_word_document ref_runtime io self order_1001 filename w
         = (Inr (filename @ ''.docx''),
            (log_event (FileWrite (filename @ ''.docx''))
               (w\<lparr>clock_reads := Suc (clock_reads w)\<rparr>))
              \<lparr>files := (files w)(filename @ ''.docx'' \<mapsto> document_1001)\<rparr>)"
proof (rule create_word_document_ok [OF head_1001])
  show "add_days (clock io (clock_reads w)) 30
        = Inr (june_first\<lparr>year := 2024, month := 7, day := 1\<rparr>)"
    by (simp only: assms(2) due_june_first)
  show "invoice_document ref_runtime (company self) order_1001
         ((''No. Orden: #1001'' @ [CHR 0x0A] @ ''Fecha: 05/03/2024'' @ [CHR 0x0A])
            @ ''Vencimiento: '' @ strftime_dmY (june_first\<lparr>year := 2024, month := 7, day := 1\<rparr>))
        = Inr document_1001"
    unfolding strftime_july_first assms(1)
    by (simp add: invoice_document_1001 document_1001_def)
  show "write_error io (filename @ ''.docx'') = None" by (rule assms(3))
qed

lemma fetch_1001:
  assumes "shopify self = shopify app_generator"
    and "http_get io = http_get shop_io"
  shows "get_shopify_order io self ''1001'' w
         = (Inr order_1001, log_event (HttpGet url_1001) w)"
  using assms
  by (simp add: get_shopify_order_def order_url_def app_generator_def shop_io_def url_1001_def)

lemma filename_1001:
  assumes "posix_seconds io = posix_seconds shop_io"
  shows "invoice_filename ref_runtime io (JStr ''#1001'') now = ''Factura_#1001_1717232400''"
  using assms
  by (simp add: invoice_filename_def shop_io_def str_int_def str_nat.simps)

lemma order_number_1001: "py_getitem order_1001 ''order_number'' = Inr (JStr ''#1001'')"
  by (simp add: order_1001_def)

text \<open>The world after order 1001 has been fetched and rendered from the empty world.\<close>

lemma rendered_after_fetch:
  assumes "company self = company app_generator"
    and "clock io = clock shop_io" and "write_error io = write_error shop_io"
  shows "create_word_document ref_runtime io self order_1001 ''Factura_#1001_1717232400''
           \<lparr>files = Map.empty, clock_reads = Suc 0, events = [HttpGet url_1001]\<rparr>
         = (Inr path_1001,
            \<lparr>files = [path_1001 \<mapsto> document_1001], clock_reads = 2,
             events = [HttpGet url_1001, FileWrite path_1001]\<rparr>)"
proof -
  have "clock io (clock_reads \<lparr>files = Map.empty, clock_reads = Suc 0,
           events = [HttpGet url_1001]\<rparr>) = june_first"
    by (simp add: assms(2) shop_io_def)
  moreover have "write_error io (''Factura_#1001_1717232400'' @ ''.docx'') = None"
    by (simp add: assms(3) shop_io_def)
  ultimately show ?thesis
    using render_1001_for [OF assms(1), of io
        "\<lparr>files = Map.empty, clock_reads = Suc 0, events = [HttpGet url_1001]\<rparr>"
        "''Factura_#1001_1717232400''"]
    by (simp add: log_event_def path_1001_def)
qed

lemma generate_1001_local:
  "generate_invoice ref_runtime shop_io app_generator ''1001'' save_local False empty_world
     = (Success (JStr ''#1001'') (if save_local then Some path_1001 else None) None,
        app_generator,
        \<lparr>files = [path_1001 \<mapsto> document_1001], clock_reads = 2,
         events = [HttpGet url_1001, FileWrite path_1001]\<rparr>)"
  by (simp add: generate_invoice_def generate_invoice_body_def fetch_1001 order_number_1001
      datetime_now_def filename_1001 rendered_after_fetch log_event_def empty_world_def
      Let_def)

lemma generate_1001_cloud_fresh:
  "generate_invoice ref_runtime shop_io cloud_generator ''1001'' True True empty_world
     = (Success (JStr ''#1001'') (Some path_1001) None,
        cloud_generator,
        \<lparr>files = [path_1001 \<mapsto> document_1001], clock_reads = 2,
         events = [HttpGet url_1001, FileWrite path_1001]\<rparr>)"
proof -
  have a: "shopify cloud_generator = shopify app_generator"
    and b: "company cloud_generator = company app_generator"
    and c: "\<not> all_office_config cloud_generator"
    by (simp_all add: cloud_generator_def all_office_config_def)
  show ?thesis
    using rendered_after_fetch [OF b refl refl]
    by (simp add: generate_invoice_def generate_invoice_body_def fetch_1001 [OF a refl]
        order_number_1001 datetime_now_def filename_1001 c log_event_def empty_world_def
        Let_def)
qed

lemma generate_1002:
  "generate_invoice ref_runtime shop_io app_generator ''1002'' save_local upload_to_cloud
       empty_world
     = (Failure ''404 Client Error: Not Found for url: https://cshop.co/admin/api/2023-10/orders/1002.json'',
        app_generator,
        \<lparr>files = Map.empty, clock_reads = 0,
         events = [HttpGet ''https://cshop.co/admin/api/2023-10/orders/1002.json'']\<rparr>)"
  by (simp add: generate_invoice_def generate_invoice_body_def get_shopify_order_def
      order_url_def app_generator_def shop_io_def log_event_def empty_world_def)


lemma generate_without_items:
  "generate_invoice ref_runtime broken_io app_generator ''1001'' True False empty_world
     = (Failure ([CHR 0x27] @ ''line_items'' @ [CHR 0x27]), app_generator,
        \<lparr>files = Map.empty, clock_reads = 2, events = [HttpGet url_1001]\<rparr>)"
proof -
  have f: "get_shopify_order broken_io app_generator ''1001'' empty_world
           = (Inr order_without_items,
              \<lparr>files = Map.empty, clock_reads = 0, events = [HttpGet url_1001]\<rparr>)"
    by (simp add: get_shopify_order_def broken_io_def order_url_def app_generator_def
        url_1001_def log_event_def empty_world_def)
  have h: "invoice_info_head ref_runtime order_without_items
           = Inr (''No. Orden: 1003'' @ [CHR 0x0A] @ ''Fecha: 05/03/2024'' @ [CHR 0x0A])"
    by (simp add: invoice_info_head_def order_without_items_def ref_runtime_def
        replace_Z_created parse_created strftime_created str_int_def str_nat.simps)
  have c: "clock broken_io n = june_first" for n
    by (simp add: broken_io_def shop_io_def)
  have d: "invoice_document ref_runtime ci order_without_items info
           = Inl (Exn KeyError ([CHR 0x27] @ ''line_items'' @ [CHR 0x27]))" for ci info
    by (simp add: invoice_document_def bill_to_cell_def ship_to_cell_def items_table_def
        order_without_items_def)
  have r: "create_word_document ref_runtime broken_io app_generator order_without_items fn
             \<lparr>files = Map.empty, clock_reads = Suc 0, events = [HttpGet url_1001]\<rparr>
           = (Inl (Exn KeyError ([CHR 0x27] @ ''line_items'' @ [CHR 0x27])),
              \<lparr>files = Map.empty, clock_reads = 2, events = [HttpGet url_1001]\<rparr>)" for fn
    by (simp add: create_word_document_def h datetime_now_def c due_june_first d)
  show ?thesis
    by (simp add: generate_invoice_def generate_invoice_body_def f order_without_items_def
        datetime_now_def Let_def r [unfolded order_without_items_def])
qed


lemma token_generator_facts:
  "shopify token_generator = shopify app_generator"
  "company token_generator = company app_generator"
  "all_office_config token_generator"
  "py_truthy (access_token (office token_generator))"
  by (simp_all add: token_generator_def cloud_generator_def all_office_config_def str_opt_def)

lemma upload_1001:
  "upload_to_onedrive ref_runtime shop_io token_generator path_1001
       ''Factura_#1001_1717232400''
       \<lparr>files = [path_1001 \<mapsto> document_1001], clock_reads = 2,
        events = [HttpGet url_1001, FileWrite path_1001]\<rparr>
     = (Inr cloud_info_1001, token_generator,
        \<lparr>files = [path_1001 \<mapsto> document_1001], clock_reads = 2,
         events = [HttpGet url_1001, FileWrite path_1001, FileRead path_1001,
                   HttpPut (upload_url ''Factura_#1001_1717232400'')]\<rparr>)"
  by (simp add: upload_to_onedrive_def token_generator_facts put_file_def shop_io_def
      log_event_def cloud_info_1001_def)

lemma generate_1001_uploaded:
  "generate_invoice ref_runtime shop_io token_generator ''1001'' False True empty_world
     = (Success (JStr ''#1001'') None (Some cloud_info_1001), token_generator,
        \<lparr>files = Map.empty, clock_reads = 2,
         events = [HttpGet url_1001, FileWrite path_1001, FileRead path_1001,
                   HttpPut (upload_url ''Factura_#1001_1717232400''),
                   FileRemove path_1001]\<rparr>)"
proof -
  have rm: "os_remove shop_io path_1001
              \<lparr>files = [path_1001 \<mapsto> document_1001], clock_reads = 2,
               events = [HttpGet url_1001, FileWrite path_1001, FileRead path_1001,
                         HttpPut (upload_url ''Factura_#1001_1717232400'')]\<rparr>
            = (Inr (),
               \<lparr>files = Map.empty, clock_reads = 2,
                events = [HttpGet url_1001, FileWrite path_1001, FileRead path_1001,
                   HttpPut (upload_url ''Factura_#1001_1717232400''),
                   FileRemove path_1001]\<rparr>)"
    by (simp add: os_remove_def shop_io_def log_event_def)
  show ?thesis
    using rendered_after_fetch [OF token_generator_facts(2) refl refl]
    by (simp add: generate_invoice_def generate_invoice_body_def
        fetch_1001 [OF token_generator_facts(1) refl] order_number_1001 datetime_now_def
        filename_1001 token_generator_facts(3) upload_1001 rm log_event_def
        empty_world_def Let_def)
qed

lemma generate_1001_offline:
  "generate_invoice ref_runtime offline_io token_generator ''1001'' True True empty_world
     = (Failure ''503 Server Error: Service Unavailable'', token_generator,
        \<lparr>files = [path_1001 \<mapsto> document_1001], clock_reads = 2,
         events = [HttpGet url_1001, FileWrite path_1001, FileRead path_1001,
                   HttpPut (upload_url ''Factura_#1001_1717232400'')]\<rparr>)"
proof -
  have io: "http_get offline_io = http_get shop_io" "clock offline_io = clock shop_io"
    "write_error offline_io = write_error shop_io"
    "posix_seconds offline_io = posix_seconds shop_io"
    by (simp_all add: offline_io_def)
  have up: "upload_to_onedrive ref_runtime offline_io token_generator path_1001
       ''Factura_#1001_1717232400''
       \<lparr>files = [path_1001 \<mapsto> document_1001], clock_reads = 2,
        events = [HttpGet url_1001, FileWrite path_1001]\<rparr>
     = (Inl (Exn RequestException ''503 Server Error: Service Unavailable''), token_generator,
        \<lparr>files = [path_1001 \<mapsto> document_1001], clock_reads = 2,
         events = [HttpGet url_1001, FileWrite path_1001, FileRead path_1001,
                   HttpPut (upload_url ''Factura_#1001_1717232400'')]\<rparr>)"
    by (simp add: upload_to_onedrive_def token_generator_facts put_file_def offline_io_def
        log_event_def)
  show ?thesis
    using rendered_after_fetch [OF token_generator_facts(2) io(2) io(3)]
    by (simp add: generate_invoice_def generate_invoice_body_def
        fetch_1001 [OF token_generator_facts(1) io(1)] order_number_1001 datetime_now_def
        filename_1001 [OF io(4)] token_generator_facts(3) up log_event_def
        empty_world_def Let_def)
qed


lemma fresh_generator_gate:
  assumes "init_generator config = Inr self"
  shows "access_token (office self) = JNull" and "\<not> all_office_config self"
  using assms
  by (auto simp: init_generator_def all_office_config_def split: option.splits)

text \<open>
  C2, evaluated where it fails. The generator is built from a configuration with client
  id, client secret and tenant id; the cached token, fourth entry of the dictionary
  tested by \<^verbatim>\<open>all(...)\<close>, is still \<^verbatim>\<open>None\<close>. With \<^verbatim>\<open>upload_to_cloud\<close> true the
  order is fetched and rendered, nothing is uploaded and the result has no cloud
  information.
\<close>

theorem upload_skipped_with_full_credentials:
  "init_generator cloud_config = Inr cloud_generator
   \<and> client_id (office cloud_generator) = Some ''client-1''
   \<and> client_secret (office cloud_generator) = Some ''secret-1''
   \<and> tenant_id (office cloud_generator) = Some ''tenant-1''
   \<and> \<not> all_office_config cloud_generator
   \<and> generate_invoice ref_runtime shop_io cloud_generator ''1001'' True True empty_world
       = (Success (JStr ''#1001'') (Some path_1001) None, cloud_generator,
          \<lparr>files = [path_1001 \<mapsto> document_1001], clock_reads = 2,
           events = [HttpGet url_1001, FileWrite path_1001]\<rparr>)"
proof -
  have "init_generator cloud_config = Inr cloud_generator"
    by (simp add: init_generator_def cloud_config_def app_config_def cloud_generator_def
        app_generator_def config_get_def)
  moreover have "\<not> all_office_config cloud_generator"
    by (simp add: cloud_generator_def all_office_config_def)
  moreover have "client_id (office cloud_generator) = Some ''client-1''
   \<and> client_secret (office cloud_generator) = Some ''secret-1''
   \<and> tenant_id (office cloud_generator) = Some ''tenant-1''"
    by (simp add: cloud_generator_def)
  ultimately show ?thesis using generate_1001_cloud_fresh by simp
qed

subsection \<open>The orchestrator on the examples\<close>

theorem fetch_failure_no_document_witness:
  "get_shopify_order shop_io app_generator ''1002'' empty_world
     = (Inl (Exn RequestException
          ''404 Client Error: Not Found for url: https://cshop.co/admin/api/2023-10/orders/1002.json''),
        \<lparr>files = Map.empty, clock_reads = 0,
         events = [HttpGet ''https://cshop.co/admin/api/2023-10/orders/1002.json'']\<rparr>)
   \<and> generate_invoice ref_runtime shop_io app_generator ''1002'' True False empty_world
     = (Failure ''404 Client Error: Not Found for url: https://cshop.co/admin/api/2023-10/orders/1002.json'',
        app_generator,
        \<lparr>files = Map.empty, clock_reads = 0,
         events = [HttpGet ''https://cshop.co/admin/api/2023-10/orders/1002.json'']\<rparr>)"
proof -
  have f: "get_shopify_order shop_io app_generator ''1002'' empty_world
     = (Inl (Exn RequestException
          ''404 Client Error: Not Found for url: https://cshop.co/admin/api/2023-10/orders/1002.json''),
        \<lparr>files = Map.empty, clock_reads = 0,
         events = [HttpGet ''https://cshop.co/admin/api/2023-10/orders/1002.json'']\<rparr>)"
    by (simp add: get_shopify_order_def order_url_def app_generator_def shop_io_def
        log_event_def empty_world_def)
  from fetch_failure_no_document [OF f, of ref_runtime True False] f
  show ?thesis by simp
qed

theorem unsaved_file_left_on_disk_witness:
  "generate_invoice ref_runtime shop_io app_generator ''1001'' False False empty_world
     = (Success (JStr ''#1001'') None None, app_generator,
        \<lparr>files = [path_1001 \<mapsto> document_1001], clock_reads = 2,
         events = [HttpGet url_1001, FileWrite path_1001]\<rparr>)
   \<and> \<not> (False \<and> all_office_config app_generator)
   \<and> (\<exists>path doc.
         [path_1001 \<mapsto> document_1001] path = Some doc
         \<and> [HttpGet url_1001, FileWrite path_1001]
             = [HttpGet (order_url app_generator ''1001''), FileWrite path])"
proof -
  have g: "generate_invoice ref_runtime shop_io app_generator ''1001'' False False empty_world
     = (Success (JStr ''#1001'') None None, app_generator,
        \<lparr>files = [path_1001 \<mapsto> document_1001], clock_reads = 2,
         events = [HttpGet url_1001, FileWrite path_1001]\<rparr>)"
    using generate_1001_local [of False] by simp
  have n: "\<not> (False \<and> all_office_config app_generator)" by simp
  from unsaved_file_left_on_disk [OF g n]
  have "\<exists>path doc.
         [path_1001 \<mapsto> document_1001] path = Some doc
         \<and> [HttpGet url_1001, FileWrite path_1001]
             = [HttpGet (order_url app_generator ''1001''), FileWrite path]"
    by (simp add: empty_world_def)
  with g show ?thesis by simp
qed

theorem generate_invoice_never_raises_witness:
  "generate_invoice ref_runtime shop_io app_generator ''1002'' True False empty_world
     = (Failure ''404 Client Error: Not Found for url: https://cshop.co/admin/api/2023-10/orders/1002.json'',
        app_generator,
        \<lparr>files = Map.empty, clock_reads = 0,
         events = [HttpGet ''https://cshop.co/admin/api/2023-10/orders/1002.json'']\<rparr>)
   \<and> generate_invoice ref_runtime broken_io app_generator ''1001'' True False empty_world
     = (Failure ([CHR 0x27] @ ''line_items'' @ [CHR 0x27]), app_generator,
        \<lparr>files = Map.empty, clock_reads = 2, events = [HttpGet url_1001]\<rparr>)
   \<and> generate_invoice ref_runtime offline_io token_generator ''1001'' True True empty_world
     = (Failure ''503 Server Error: Service Unavailable'', token_generator,
        \<lparr>files = [path_1001 \<mapsto> document_1001], clock_reads = 2,
         events = [HttpGet url_1001, FileWrite path_1001, FileRead path_1001,
                   HttpPut (upload_url ''Factura_#1001_1717232400'')]\<rparr>)
   \<and> generate_invoice ref_runtime shop_io app_generator ''1001'' True False empty_world
     = (Success (JStr ''#1001'') (Some path_1001) None, app_generator,
        \<lparr>files = [path_1001 \<mapsto> document_1001], clock_reads = 2,
         events = [HttpGet url_1001, FileWrite path_1001]\<rparr>)
   \<and> generate_invoice ref_runtime shop_io token_generator ''1001'' False True empty_world
     = (Success (JStr ''#1001'') None (Some cloud_info_1001), token_generator,
        \<lparr>files = Map.empty, clock_reads = 2,
         events = [HttpGet url_1001, FileWrite path_1001, FileRead path_1001,
                   HttpPut (upload_url ''Factura_#1001_1717232400''),
                   FileRemove path_1001]\<rparr>)"
proof -
  let ?w1 = "\<lparr>files = Map.empty, clock_reads = 0, events = [HttpGet url_1001]\<rparr>"
  let ?w3 = "\<lparr>files = [path_1001 \<mapsto> document_1001], clock_reads = 2,
              events = [HttpGet url_1001, FileWrite path_1001]\<rparr>"
  let ?w4 = "\<lparr>files = [path_1001 \<mapsto> document_1001], clock_reads = 2,
              events = [HttpGet url_1001, FileWrite path_1001, FileRead path_1001,
                        HttpPut (upload_url ''Factura_#1001_1717232400'')]\<rparr>"
  let ?w5 = "\<lparr>files = Map.empty, clock_reads = 2,
              events = [HttpGet url_1001, FileWrite path_1001, FileRead path_1001,
                        HttpPut (upload_url ''Factura_#1001_1717232400''),
                        FileRemove path_1001]\<rparr>"
  have off: "http_get offline_io = http_get shop_io" "clock offline_io = clock shop_io"
    "write_error offline_io = write_error shop_io"
    "posix_seconds offline_io = posix_seconds shop_io"
    by (simp_all add: offline_io_def)
  have fetch: "get_shopify_order io self ''1001'' empty_world = (Inr order_1001, ?w1)"
    if "shopify self = shopify app_generator" "http_get io = http_get shop_io" for io self
    using fetch_1001 [OF that] by (simp add: log_event_def empty_world_def)
  have name: "''Factura_#1001_1717232400''
              = invoice_filename ref_runtime io (JStr ''#1001'') (clock io (clock_reads ?w1))"
    if "posix_seconds io = posix_seconds shop_io" for io
    using filename_1001 [OF that] by simp
  have render: "create_word_document ref_runtime io self order_1001 ''Factura_#1001_1717232400''
                  (?w1\<lparr>clock_reads := Suc (clock_reads ?w1)\<rparr>) = (Inr path_1001, ?w3)"
    if "company self = company app_generator" "clock io = clock shop_io"
      "write_error io = write_error shop_io" for io self
    using rendered_after_fetch [OF that] by simp
  \<comment> \<open>the order service answers 404\<close>
  have f2: "get_shopify_order shop_io app_generator ''1002'' empty_world
     = (Inl (Exn RequestException
          ''404 Client Error: Not Found for url: https://cshop.co/admin/api/2023-10/orders/1002.json''),
        \<lparr>files = Map.empty, clock_reads = 0,
         events = [HttpGet ''https://cshop.co/admin/api/2023-10/orders/1002.json'']\<rparr>)"
    by (simp add: get_shopify_order_def order_url_def app_generator_def shop_io_def
        log_event_def empty_world_def)
  have r1: "generate_invoice ref_runtime shop_io app_generator ''1002'' True False empty_world
     = (Failure ''404 Client Error: Not Found for url: https://cshop.co/admin/api/2023-10/orders/1002.json'',
        app_generator,
        \<lparr>files = Map.empty, clock_reads = 0,
         events = [HttpGet ''https://cshop.co/admin/api/2023-10/orders/1002.json'']\<rparr>)"
    using generate_invoice_never_raises
      [where io = shop_io and self = app_generator and order_id = "''1002''"
         and w = empty_world and rt = ref_runtime and save_local = True
         and upload_to_cloud = False
         and e = "Exn RequestException
          ''404 Client Error: Not Found for url: https://cshop.co/admin/api/2023-10/orders/1002.json''"
         and ?w1.0 = "\<lparr>files = Map.empty, clock_reads = 0,
         events = [HttpGet ''https://cshop.co/admin/api/2023-10/orders/1002.json'']\<rparr>"]
      f2
    by simp
  \<comment> \<open>the order has no line items\<close>
  have f3: "get_shopify_order broken_io app_generator ''1001'' empty_world
           = (Inr order_without_items, ?w1)"
    by (simp add: get_shopify_order_def broken_io_def order_url_def app_generator_def
        url_1001_def log_event_def empty_world_def)
  have n3: "py_getitem order_without_items ''order_number'' = Inr (JInt 1003)"
    by (simp add: order_without_items_def)
  have h3: "invoice_info_head ref_runtime order_without_items
           = Inr (''No. Orden: 1003'' @ [CHR 0x0A] @ ''Fecha: 05/03/2024'' @ [CHR 0x0A])"
    by (simp add: invoice_info_head_def order_without_items_def ref_runtime_def
        replace_Z_created parse_created strftime_created str_int_def str_nat.simps)
  have d3: "invoice_document ref_runtime ci order_without_items info
           = Inl (Exn KeyError ([CHR 0x27] @ ''line_items'' @ [CHR 0x27]))" for ci info
    by (simp add: invoice_document_def bill_to_cell_def ship_to_cell_def items_table_def
        order_without_items_def)
  have c3: "create_word_document ref_runtime broken_io app_generator order_without_items fn
             (?w1\<lparr>clock_reads := Suc (clock_reads ?w1)\<rparr>)
           = (Inl (Exn KeyError ([CHR 0x27] @ ''line_items'' @ [CHR 0x27])),
              \<lparr>files = Map.empty, clock_reads = 2, events = [HttpGet url_1001]\<rparr>)" for fn
    by (simp add: create_word_document_def h3 datetime_now_def broken_io_def shop_io_def
        due_june_first d3)
  have r2: "generate_invoice ref_runtime broken_io app_generator ''1001'' True False empty_world
     = (Failure ([CHR 0x27] @ ''line_items'' @ [CHR 0x27]), app_generator,
        \<lparr>files = Map.empty, clock_reads = 2, events = [HttpGet url_1001]\<rparr>)"
    using generate_invoice_never_raises
      [where io = broken_io and self = app_generator and order_id = "''1001''"
         and w = empty_world and rt = ref_runtime and save_local = True
         and upload_to_cloud = False and order_data = order_without_items
         and ?w1.0 = ?w1 and order_number = "JInt 1003"
         and filename = "invoice_filename ref_runtime broken_io (JInt 1003)
                           (clock broken_io (clock_reads ?w1))"
         and e = "Exn KeyError ([CHR 0x27] @ ''line_items'' @ [CHR 0x27])"
         and ?w3.0 = "\<lparr>files = Map.empty, clock_reads = 2, events = [HttpGet url_1001]\<rparr>"]
      f3 n3 c3
    by simp
  \<comment> \<open>the cloud service is down\<close>
  have u4: "upload_to_onedrive ref_runtime offline_io token_generator path_1001
              ''Factura_#1001_1717232400'' ?w3
            = (Inl (Exn RequestException ''503 Server Error: Service Unavailable''),
               token_generator, ?w4)"
    by (simp add: upload_to_onedrive_def token_generator_facts put_file_def offline_io_def
        log_event_def)
  have r3: "generate_invoice ref_runtime offline_io token_generator ''1001'' True True
              empty_world
     = (Failure ''503 Server Error: Service Unavailable'', token_generator, ?w4)"
    using generate_invoice_never_raises
      [where io = offline_io and self = token_generator and order_id = "''1001''"
         and w = empty_world and rt = ref_runtime and save_local = True
         and upload_to_cloud = True and order_data = order_1001
         and ?w1.0 = ?w1 and order_number = "JStr ''#1001''"
         and filename = "''Factura_#1001_1717232400''" and path = path_1001
         and ?w3.0 = ?w3
         and e = "Exn RequestException ''503 Server Error: Service Unavailable''"
         and ?self1.0 = token_generator and ?w4.0 = ?w4]
      fetch [OF token_generator_facts(1) off(1)] order_number_1001 name [OF off(4)]
      render [OF token_generator_facts(2) off(2) off(3)] token_generator_facts(3) u4
    by simp
  \<comment> \<open>nothing fails, no upload asked for\<close>
  have r4: "generate_invoice ref_runtime shop_io app_generator ''1001'' True False empty_world
     = (Success (JStr ''#1001'') (Some path_1001) None, app_generator, ?w3)"
    using generate_invoice_never_raises
      [where io = shop_io and self = app_generator and order_id = "''1001''"
         and w = empty_world and rt = ref_runtime and save_local = True
         and upload_to_cloud = False and order_data = order_1001
         and ?w1.0 = ?w1 and order_number = "JStr ''#1001''"
         and filename = "''Factura_#1001_1717232400''" and path = path_1001
         and ?w3.0 = ?w3]
      fetch [OF refl refl] order_number_1001 name [OF refl] render [OF refl refl refl]
    by simp
  \<comment> \<open>nothing fails, the file is uploaded and removed\<close>
  have rm: "os_remove shop_io path_1001 ?w4 = (Inr (), ?w5)"
    by (simp add: os_remove_def shop_io_def log_event_def)
  have r5: "generate_invoice ref_runtime shop_io token_generator ''1001'' False True
              empty_world
     = (Success (JStr ''#1001'') None (Some cloud_info_1001), token_generator, ?w5)"
    using generate_invoice_never_raises
      [where io = shop_io and self = token_generator and order_id = "''1001''"
         and w = empty_world and rt = ref_runtime and save_local = False
         and upload_to_cloud = True and order_data = order_1001
         and ?w1.0 = ?w1 and order_number = "JStr ''#1001''"
         and filename = "''Factura_#1001_1717232400''" and path = path_1001
         and ?w3.0 = ?w3 and info = cloud_info_1001
         and ?self1.0 = token_generator and ?w4.0 = ?w4 and ?w5.0 = ?w5]
      fetch [OF token_generator_facts(1) refl] order_number_1001 name [OF refl]
      render [OF token_generator_facts(2) refl refl] token_generator_facts(3) upload_1001 rm
    by simp
  from r1 r2 r3 r4 r5 show ?thesis by (intro conjI)
qed

end
